theory Spec2Isabelle
  imports Complex_Main
begin

section \<open>Strings, byte strings and the bounded deque\<close>

text \<open>
  A Python \<open>str\<close> is a sequence of Unicode code points; \<open>len\<close>, slicing, \<open>strip\<close> and
  line splitting all count code points. A string is therefore a list of code points, each a
  natural number, and \<open>lit\<close> embeds an ASCII literal of the source. Characters of the source
  beyond ASCII are written by their code point (for instance 161 for the inverted
  exclamation mark). A \<open>bytes\<close> value is a list of byte values.
\<close>

type_synonym str = "nat list"
type_synonym bytes = "nat list"

definition lit :: "string \<Rightarrow> str" where
  "lit s = map of_char s"

text \<open>\<open>sep.join(xs)\<close>.\<close>

fun str_join :: "str \<Rightarrow> str list \<Rightarrow> str" where
  "str_join sep [] = []"
| "str_join sep [x] = x"
| "str_join sep (x # y # ys) = x @ sep @ str_join sep (y # ys)"

text \<open>
  \<open>str.isspace\<close> on one code point: the code points whose general category is \<open>Zs\<close> or
  whose bidirectional class is \<open>WS\<close>, \<open>B\<close> or \<open>S\<close>. \<open>str.strip()\<close> without argument removes
  them from both ends.
\<close>

definition isspace :: "nat \<Rightarrow> bool" where
  "isspace c \<longleftrightarrow>
     (9 \<le> c \<and> c \<le> 13) \<or> (28 \<le> c \<and> c \<le> 32) \<or> c = 133 \<or> c = 160 \<or> c = 5760
     \<or> (8192 \<le> c \<and> c \<le> 8202) \<or> c = 8232 \<or> c = 8233 \<or> c = 8239 \<or> c = 8287
     \<or> c = 12288"

definition strip :: "str \<Rightarrow> str" where
  "strip s = rev (dropWhile isspace (rev (dropWhile isspace s)))"

text \<open>
  Iterating over a file opened in text mode (\<open>for linea in f\<close>): the text is cut after every
  line ending, and with the default universal-newlines mode each of the endings
  \<open>\n\<close> (10), \<open>\r\<close> (13) and \<open>\r\n\<close> is delivered as \<open>\n\<close>. A last line without line ending is
  delivered as it is. The first argument is the line read so far.
\<close>

function leer_lineas :: "str \<Rightarrow> str \<Rightarrow> str list" where
  "leer_lineas linea [] = (if linea = [] then [] else [linea])"
| "leer_lineas linea (c # cs) =
     (if c = 10 then (linea @ [10]) # leer_lineas [] cs
      else if c = 13 then
        (linea @ [10]) # leer_lineas [] (case cs of [] \<Rightarrow> [] | d # ds \<Rightarrow> if d = 10 then ds else cs)
      else leer_lineas (linea @ [c]) cs)"
  by pat_completeness auto
termination
  by (relation "measure (\<lambda>(linea, resto). length resto)") (auto split: list.splits)

text \<open>
  \<open>collections.deque(maxlen=6)\<close>: \<open>append\<close> adds the element on the right and, when the
  deque then holds more than \<open>maxlen\<close> elements, drops the leftmost one.
\<close>

definition maxlen :: nat where
  "maxlen = 6"

definition deque_append :: "'a list \<Rightarrow> 'a \<Rightarrow> 'a list" where
  "deque_append d x = (let d' = d @ [x] in if length d' > maxlen then tl d' else d')"

section \<open>Splitting a reply for delivery\<close>

text \<open>
  \<open>adecuar_respuesta\<close>: a reply shorter than 4000 is returned as a single element; otherwise
  the comprehension \<open>[respuesta[i:i+4000] for i in range(0, len(respuesta), 4000)]\<close> runs,
  modelled by \<open>trozos\<close>, whose first argument is the loop variable \<open>i\<close>.
\<close>

function trozos :: "nat \<Rightarrow> 'a list \<Rightarrow> 'a list list" where
  "trozos i r = (if i < length r then take 4000 (drop i r) # trozos (i + 4000) r else [])"
  by pat_completeness auto
termination
  by (relation "measure (\<lambda>(i, r). length r - i)") auto

declare trozos.simps [simp del]

definition adecuar_respuesta :: "'a list \<Rightarrow> 'a list list" where
  "adecuar_respuesta respuesta =
     (if length respuesta < 4000 then [respuesta] else trozos 0 respuesta)"

section \<open>Updates, workers and the external collaborators\<close>

text \<open>
  What the program reads of a Telegram update: its identifier and, when present, the
  message with the chat identifier, the text and the file identifiers of an audio or a
  voice attachment. A field that is \<open>None\<close> in Python is \<open>None\<close> here.
\<close>

record Message =
  msg_chat_id :: int
  msg_text :: "str option"
  msg_audio :: "str option"
  msg_voice :: "str option"

record Update =
  update_id :: int
  message :: "Message option"

text \<open>An exception, with the text that \<open>str(e)\<close> gives.\<close>

datatype excepcion = Excepcion str

text \<open>
  The fields of a \<open>GestorChat\<close> object. The queue \<open>cola_mensajes\<close> is the list of pending
  updates, oldest first; \<open>ultima_actividad\<close> is a reading of \<open>time.time()\<close>, in seconds, taken
  as a real number, so that the difference of two readings is exact.
  The shared \<open>bot\<close> is part of the environment below, and the thread \<open>hilo\<close> is the sequence
  of loop iterations \<open>procesar_cola_iteracion\<close>.
\<close>

record GestorChat =
  chat_id :: int
  cola_mensajes :: "Update list"
  ultima_actividad :: real
  memoria :: "str list"
  activo :: bool

text \<open>
  The external services, each a function from the request to either the exception raised
  or the value returned:
  \<^item> \<open>gemini_flash prompt\<close>: the \<open>text\<close> of \<open>generate_content\<close> on model gemini-2.5-flash;
  \<^item> \<open>gemini_flash_lite prompt\<close>: \<open>response.text.strip().lower()\<close> of \<open>generate_content\<close> on
    model gemini-2.5-flash-lite;
  \<^item> \<open>transcripcion audio\<close>: \<open>res.json()["text"]\<close> of the transcription request;
  \<^item> \<open>sintesis input voice\<close>: the \<open>content\<close> of the speech request;
  \<^item> \<open>descarga file_id\<close>: \<open>getFile\<close> followed by the download of the file;
  \<^item> \<open>sendMessage chat text\<close> and \<open>sendAudio chat audio\<close>: the exception raised by the
    delivery, if any.
\<close>

record entorno =
  gemini_flash :: "str \<Rightarrow> excepcion + str"
  gemini_flash_lite :: "str \<Rightarrow> excepcion + str"
  transcripcion :: "bytes \<Rightarrow> excepcion + str"
  sintesis :: "str \<Rightarrow> str \<Rightarrow> excepcion + bytes"
  descarga :: "str \<Rightarrow> excepcion + bytes"
  sendMessage :: "int \<Rightarrow> str \<Rightarrow> excepcion option"
  sendAudio :: "int \<Rightarrow> bytes \<Rightarrow> excepcion option"

text \<open>
  What the program does to the outside, in order: the update a worker starts to process
  (the console line printed at the head of \<open>procesar_update\<close>), the text and audio messages
  delivered, and the error a worker's loop prints.
\<close>

datatype efecto =
  Procesando int Update
| Mensaje_enviado int str
| Audio_enviado int bytes
| Error_en_chat int excepcion

definition TIEMPO_INACTIVIDAD_MAX :: real where
  "TIEMPO_INACTIVIDAD_MAX = 300"

definition voces :: "(str \<times> str) list" where
  "voces =
     [(lit ''es'', lit ''es-ES-AlvaroNeural''),
      (lit ''en'', lit ''en-US-GuyNeural''),
      (lit ''fr'', lit ''fr-FR-DeniseNeural''),
      (lit ''de'', lit ''de-DE-KatjaNeural''),
      (lit ''it'', lit ''it-IT-ElsaNeural'')]"

definition voces_largo :: "(str \<times> str) list" where
  "voces_largo =
     [(lit ''es'', lit ''ESPA'' @ [209] @ lit ''OL''),
      (lit ''en'', lit ''INGL'' @ [201] @ lit ''S''),
      (lit ''fr'', lit ''FRANC'' @ [201] @ lit ''S''),
      (lit ''de'', lit ''ALEM'' @ [193] @ lit ''N''),
      (lit ''it'', lit ''ITALIANO'')]"

text \<open>\<open>d.get(k, default)\<close>.\<close>

definition dict_get :: "('k \<times> 'v) list \<Rightarrow> 'k \<Rightarrow> 'v \<Rightarrow> 'v" where
  "dict_get d k por_defecto = (case map_of d k of None \<Rightarrow> por_defecto | Some v \<Rightarrow> v)"

definition detectar_idioma :: "entorno \<Rightarrow> str \<Rightarrow> str" where
  "detectar_idioma env mensaje =
     (case gemini_flash_lite env
             (lit ''Detecta el idioma y devuelve SOLO el c'' @ [243]
              @ lit ''digo ISO 639-1 (es, en, fr...): '' @ take 50 mensaje) of
        Inl e \<Rightarrow> lit ''es''
      | Inr idioma \<Rightarrow> idioma)"

definition prompt_completo :: "str \<Rightarrow> str \<Rightarrow> str \<Rightarrow> str" where
  "prompt_completo idioma historial_previo mensaje =
     [10] @ lit ''    Respondes exclusivamente en ''
     @ dict_get voces_largo idioma (lit ''ESPA'' @ [209] @ lit ''OL'') @ lit ''.'' @ [10, 10]
     @ lit ''    HISTORIAL DE LA CONVERSACI'' @ [211] @ lit ''N:'' @ [10]
     @ lit ''    '' @ historial_previo @ [10]
     @ lit ''    '' @ [10]
     @ lit ''    NUEVA CONSULTA DEL USUARIO:'' @ [10]
     @ lit ''    '' @ mensaje @ [39]"

definition response_gemini_consulta_documentos :: "entorno \<Rightarrow> str \<Rightarrow> str \<Rightarrow> str" where
  "response_gemini_consulta_documentos env mensaje historial_previo =
     (let idioma = detectar_idioma env mensaje in
      case gemini_flash env (prompt_completo idioma historial_previo mensaje) of
        Inr respuesta \<Rightarrow> respuesta
      | Inl (Excepcion e) \<Rightarrow> lit ''Lo siento, hubo un error procesando tu solicitud: '' @ e)"

definition response_openweb_transcriptor :: "entorno \<Rightarrow> bytes \<Rightarrow> str" where
  "response_openweb_transcriptor env audio =
     (case transcripcion env audio of Inr transcripcion_texto \<Rightarrow> transcripcion_texto | Inl e \<Rightarrow> [])"

definition response_openweb_lectura :: "entorno \<Rightarrow> str \<Rightarrow> bytes option" where
  "response_openweb_lectura env mensaje =
     (let idioma = detectar_idioma env mensaje in
      case sintesis env mensaje (dict_get voces idioma (lit ''es-ES-AlvaroNeural'')) of
        Inr audio \<Rightarrow> Some audio
      | Inl e \<Rightarrow> None)"

definition obt_audio :: "entorno \<Rightarrow> str \<Rightarrow> excepcion + bytes" where
  "obt_audio env file_id = descarga env file_id"

section \<open>The worker of one chat\<close>

text \<open>
  The files \<open>chats/<chat_id>.txt\<close> are a map from the chat identifier to the text of the
  file; an identifier outside the domain has no file. Reading and writing a file of the
  local disk is taken to succeed.
\<close>

type_synonym archivos = "int \<Rightarrow> str option"

definition cargar_historial :: "archivos \<Rightarrow> GestorChat \<Rightarrow> GestorChat" where
  "cargar_historial fs g =
     (case fs (chat_id g) of
        None \<Rightarrow> g
      | Some contenido \<Rightarrow>
          g\<lparr>memoria := foldl deque_append (memoria g) (map strip (leer_lineas [] contenido))\<rparr>)"

definition guardar_historial :: "archivos \<Rightarrow> GestorChat \<Rightarrow> archivos" where
  "guardar_historial fs g = fs(chat_id g \<mapsto> str_join [10] (memoria g))"

text \<open>The constructor; \<open>ahora\<close> is its reading of the clock.\<close>

definition GestorChat_init :: "archivos \<Rightarrow> int \<Rightarrow> real \<Rightarrow> GestorChat" where
  "GestorChat_init fs cid ahora =
     cargar_historial fs
       \<lparr>chat_id = cid, cola_mensajes = [], ultima_actividad = ahora, memoria = [],
        activo = True\<rparr>"

definition agregar_mensaje :: "GestorChat \<Rightarrow> Update \<Rightarrow> real \<Rightarrow> GestorChat" where
  "agregar_mensaje g u ahora =
     g\<lparr>cola_mensajes := cola_mensajes g @ [u], ultima_actividad := ahora\<rparr>"

definition detener :: "archivos \<Rightarrow> GestorChat \<Rightarrow> archivos \<times> GestorChat" where
  "detener fs g = (let g' = g\<lparr>activo := False\<rparr> in (guardar_historial fs g', g'))"

text \<open>
  The block of \<open>procesar_update\<close> that obtains the question: an update with an audio or a
  voice attachment is downloaded and transcribed (the download may raise); otherwise a
  text that is neither \<open>None\<close> nor empty is the question; otherwise there is none.
\<close>

definition obtener_pregunta :: "entorno \<Rightarrow> Message \<Rightarrow> excepcion + str option" where
  "obtener_pregunta env m =
     (case (msg_audio m, msg_voice m) of
        (Some fid, _) \<Rightarrow>
          (case obt_audio env fid of
             Inl e \<Rightarrow> Inl e
           | Inr audio_bytes \<Rightarrow> Inr (Some (response_openweb_transcriptor env audio_bytes)))
      | (None, Some fid) \<Rightarrow>
          (case obt_audio env fid of
             Inl e \<Rightarrow> Inl e
           | Inr audio_bytes \<Rightarrow> Inr (Some (response_openweb_transcriptor env audio_bytes)))
      | (None, None) \<Rightarrow>
          (case msg_text m of
             None \<Rightarrow> Inr None
           | Some t \<Rightarrow> if t = [] then Inr None else Inr (Some t)))"

text \<open>The loop that sends the parts; it stops at the first delivery that raises.\<close>

fun enviar_partes ::
  "entorno \<Rightarrow> int \<Rightarrow> str list \<Rightarrow> efecto list \<Rightarrow> efecto list \<times> excepcion option" where
  "enviar_partes env cid [] tr = (tr, None)"
| "enviar_partes env cid (parte # partes) tr =
     (case sendMessage env cid parte of
        Some e \<Rightarrow> (tr, Some e)
      | None \<Rightarrow> enviar_partes env cid partes (tr @ [Mensaje_enviado cid parte]))"

text \<open>The block that sends the audio: nothing is sent when the synthesis gave nothing.\<close>

definition enviar_audio ::
  "entorno \<Rightarrow> int \<Rightarrow> str \<Rightarrow> efecto list \<Rightarrow> efecto list \<times> excepcion option" where
  "enviar_audio env cid respuesta tr =
     (case response_openweb_lectura env respuesta of
        None \<Rightarrow> (tr, None)
      | Some audio_resp \<Rightarrow>
          if audio_resp = [] then (tr, None)
          else (case sendAudio env cid audio_resp of
                  Some e \<Rightarrow> (tr, Some e)
                | None \<Rightarrow> (tr @ [Audio_enviado cid audio_resp], None)))"

text \<open>
  \<open>procesar_update\<close> returns the effects so far, the worker and the exception it raises, if
  any. An update without message raises at the first attribute access.
\<close>

definition procesar_update ::
  "entorno \<Rightarrow> efecto list \<Rightarrow> GestorChat \<Rightarrow> Update \<Rightarrow> efecto list \<times> GestorChat \<times> excepcion option"
  where
  "procesar_update env tr g u =
     (let tr0 = tr @ [Procesando (chat_id g) u] in
      case message u of
        None \<Rightarrow>
          (tr0, g, Some (Excepcion (lit ''NoneType object has no attribute audio'')))
      | Some m \<Rightarrow>
          (case obtener_pregunta env m of
             Inl e \<Rightarrow> (tr0, g, Some e)
           | Inr None \<Rightarrow> (tr0, g, None)
           | Inr (Some pregunta) \<Rightarrow>
               (let historial_str = str_join [10] (memoria g);
                    respuesta = response_gemini_consulta_documentos env pregunta historial_str;
                    g1 = g\<lparr>memoria :=
                           deque_append
                             (deque_append (memoria g) (lit ''Usuario: '' @ pregunta))
                             (lit ''Asistente: '' @ respuesta)\<rparr>
                in case enviar_partes env (chat_id g) (adecuar_respuesta respuesta) tr0 of
                     (tr1, Some e) \<Rightarrow> (tr1, g1, Some e)
                   | (tr1, None) \<Rightarrow>
                       (case enviar_audio env (chat_id g) respuesta tr1 of
                          (tr2, e2) \<Rightarrow> (tr2, g1, e2)))))"

text \<open>
  One iteration of the loop of \<open>procesar_cola\<close>, with \<open>ahora\<close> the clock read in its
  \<open>finally\<close> block. A worker that is no longer active leaves the loop, and an empty queue
  lets the wait time out; both leave everything as it is. Otherwise the oldest update is
  taken from the queue and processed, and an exception of the processing is printed.
  The iteration is one step here: what another thread does to the worker falls before
  or after it. In the program the flag is read at the head of the loop only, so a stop
  can also fall inside an iteration, which then still finishes its update.
\<close>

definition procesar_cola_iteracion ::
  "entorno \<Rightarrow> real \<Rightarrow> efecto list \<times> GestorChat \<Rightarrow> efecto list \<times> GestorChat" where
  "procesar_cola_iteracion env ahora st =
     (case st of (tr, g) \<Rightarrow>
        if \<not> activo g then (tr, g)
        else (case cola_mensajes g of
                [] \<Rightarrow> (tr, g)
              | u # cola \<Rightarrow>
                  (case procesar_update env tr (g\<lparr>cola_mensajes := cola\<rparr>) u of
                     (tr', g', None) \<Rightarrow> (tr', g'\<lparr>ultima_actividad := ahora\<rparr>)
                   | (tr', g', Some e) \<Rightarrow>
                       (tr' @ [Error_en_chat (chat_id g') e], g'\<lparr>ultima_actividad := ahora\<rparr>))))"

text \<open>
  A worker runs beside the threads that call its methods. A run of one worker is a list
  of actions: another thread enqueues an update, the worker's thread runs one iteration of
  its loop, another thread stops the worker.
\<close>

datatype accion = Encolar Update real | Iterar real | Parar

fun ejecutar_accion ::
  "entorno \<Rightarrow> archivos \<times> efecto list \<times> GestorChat \<Rightarrow> accion \<Rightarrow> archivos \<times> efecto list \<times> GestorChat"
  where
  "ejecutar_accion env (fs, tr, g) (Encolar u ahora) = (fs, tr, agregar_mensaje g u ahora)"
| "ejecutar_accion env (fs, tr, g) (Iterar ahora) =
     (case procesar_cola_iteracion env ahora (tr, g) of (tr', g') \<Rightarrow> (fs, tr', g'))"
| "ejecutar_accion env (fs, tr, g) Parar =
     (case detener fs g of (fs', g') \<Rightarrow> (fs', tr, g'))"

definition ejecutar ::
  "entorno \<Rightarrow> archivos \<times> efecto list \<times> GestorChat \<Rightarrow> accion list \<Rightarrow> archivos \<times> efecto list \<times> GestorChat"
  where
  "ejecutar env st acciones = foldl (ejecutar_accion env) st acciones"

text \<open>The updates a trace shows as processed, and the updates a run enqueues, in order.\<close>

fun procesados :: "efecto list \<Rightarrow> Update list" where
  "procesados [] = []"
| "procesados (Procesando cid u # tr) = u # procesados tr"
| "procesados (e # tr) = procesados tr"

fun encolados :: "accion list \<Rightarrow> Update list" where
  "encolados [] = []"
| "encolados (Encolar u ahora # acciones) = u # encolados acciones"
| "encolados (a # acciones) = encolados acciones"

text \<open>The texts a trace shows as delivered, in order.\<close>

fun textos_enviados :: "efecto list \<Rightarrow> str list" where
  "textos_enviados [] = []"
| "textos_enviados (Mensaje_enviado cid t # tr) = t # textos_enviados tr"
| "textos_enviados (e # tr) = textos_enviados tr"

section \<open>Notions for stating the properties\<close>

text \<open>
  The reply the worker computes for a question, given its history, and the history after
  the exchange of that question and a reply.
\<close>

definition respuesta_de :: "entorno \<Rightarrow> GestorChat \<Rightarrow> str \<Rightarrow> str" where
  "respuesta_de env g pregunta =
     response_gemini_consulta_documentos env pregunta (str_join [10] (memoria g))"

definition memoria_tras :: "GestorChat \<Rightarrow> str \<Rightarrow> str \<Rightarrow> str list" where
  "memoria_tras g pregunta respuesta =
     deque_append (deque_append (memoria g) (lit ''Usuario: '' @ pregunta))
       (lit ''Asistente: '' @ respuesta)"

text \<open>
  Concrete environments: one where every service answers (the generation with the reply
  of the end-to-end scenario, the speech synthesis with a failure), one where the
  transcription alone fails, one where every service but the download and the delivery
  fails, and one where the generation fails with a message of 3951 characters.
\<close>

definition entorno_hola :: entorno where
  "entorno_hola =
     \<lparr>gemini_flash = (\<lambda>p. Inr ([161] @ lit ''Hola!'')),
      gemini_flash_lite = (\<lambda>p. Inr (lit ''es'')),
      transcripcion = (\<lambda>a. Inr (lit ''hola'')),
      sintesis = (\<lambda>i v. Inl (Excepcion (lit ''sin voz''))),
      descarga = (\<lambda>f. Inr [73, 68, 51]),
      sendMessage = (\<lambda>c t. None),
      sendAudio = (\<lambda>c a. None)\<rparr>"

definition entorno_sordo :: entorno where
  "entorno_sordo = entorno_hola\<lparr>transcripcion := (\<lambda>a. Inl (Excepcion (lit ''timeout'')))\<rparr>"

definition entorno_caido :: entorno where
  "entorno_caido =
     \<lparr>gemini_flash = (\<lambda>p. Inl (Excepcion (lit ''503 UNAVAILABLE''))),
      gemini_flash_lite = (\<lambda>p. Inl (Excepcion (lit ''503 UNAVAILABLE''))),
      transcripcion = (\<lambda>a. Inl (Excepcion (lit ''timeout''))),
      sintesis = (\<lambda>i v. Inl (Excepcion (lit ''timeout''))),
      descarga = (\<lambda>f. Inr [73, 68, 51]),
      sendMessage = (\<lambda>c t. None),
      sendAudio = (\<lambda>c a. None)\<rparr>"

definition mensaje_largo :: str where
  "mensaje_largo = replicate 3951 97"

definition entorno_error_largo :: entorno where
  "entorno_error_largo = entorno_caido\<lparr>gemini_flash := (\<lambda>p. Inl (Excepcion mensaje_largo))\<rparr>"

text \<open>
  Concrete updates of chat 42: a text, a voice message, and a message with neither text nor
  audio (a photograph, say).
\<close>

definition update_hola :: Update where
  "update_hola =
     \<lparr>update_id = 1,
      message = Some \<lparr>msg_chat_id = 42, msg_text = Some (lit ''hola''), msg_audio = None,
                       msg_voice = None\<rparr>\<rparr>"

definition update_voz :: Update where
  "update_voz =
     \<lparr>update_id = 2,
      message = Some \<lparr>msg_chat_id = 42, msg_text = None, msg_audio = None,
                       msg_voice = Some (lit ''AwACAgQ'')\<rparr>\<rparr>"

definition update_foto :: Update where
  "update_foto =
     \<lparr>update_id = 3,
      message = Some \<lparr>msg_chat_id = 42, msg_text = None, msg_audio = None, msg_voice = None\<rparr>\<rparr>"

text \<open>
  Concrete workers of chat 42: fresh with no file on disk, with two updates queued, with a
  full history, and after the exchange of the end-to-end scenario; and a run.
\<close>

definition gestor_42 :: GestorChat where
  "gestor_42 = GestorChat_init Map.empty 42 0"


definition gestor_lleno :: GestorChat where
  "gestor_lleno =
     gestor_42\<lparr>memoria :=
       [lit ''Usuario: uno'', lit ''Asistente: 1'', lit ''Usuario: dos'', lit ''Asistente: 2'',
        lit ''Usuario: tres'', lit ''Asistente: 3'']\<rparr>"

definition gestor_hablado :: GestorChat where
  "gestor_hablado =
     gestor_42\<lparr>memoria := [lit ''Usuario: hola'', lit ''Asistente: '' @ [161] @ lit ''Hola!'']\<rparr>"

definition acciones_42 :: "accion list" where
  "acciones_42 = [Encolar update_hola 1, Encolar update_voz 2, Iterar 3, Encolar update_foto 4]"

section \<open>The registry of workers and the inactivity monitor\<close>

text \<open>
  The global state. \<open>objetos\<close> holds every \<open>GestorChat\<close> object constructed so far; an object
  is known by its position, which is its identity. \<open>chats_activos\<close> is the dictionary from
  chat identifier to object, in insertion order. \<open>ficheros\<close> are the history files.
\<close>

record Sistema =
  objetos :: "GestorChat list"
  chats_activos :: "(int \<times> nat) list"
  ficheros :: archivos

text \<open>
  The first loop of a cycle of \<open>monitor_inactividad\<close>, over the items of the dictionary,
  with \<open>ahora\<close> the clock read after the sleep. It works on the objects, the files and the
  list \<open>eliminar\<close>; the dictionary itself is not changed by it.
\<close>

fun monitor_bucle ::
  "real \<Rightarrow> (int \<times> nat) list \<Rightarrow> GestorChat list \<times> archivos \<times> int list
     \<Rightarrow> GestorChat list \<times> archivos \<times> int list" where
  "monitor_bucle ahora [] st = st"
| "monitor_bucle ahora ((cid, r) # items) (objs, fs, eliminar) =
     (let gestor = objs ! r in
      if ahora - ultima_actividad gestor > TIEMPO_INACTIVIDAD_MAX \<and> cola_mensajes gestor = []
      then (case detener fs gestor of
              (fs', gestor') \<Rightarrow>
                monitor_bucle ahora items (objs[r := gestor'], fs', eliminar @ [cid]))
      else monitor_bucle ahora items (objs, fs, eliminar))"

text \<open>\<open>del d[k]\<close> for a key of the dictionary, and the second loop of the cycle.\<close>

definition dict_del :: "'k \<Rightarrow> ('k \<times> 'v) list \<Rightarrow> ('k \<times> 'v) list" where
  "dict_del k d = filter (\<lambda>kv. fst kv \<noteq> k) d"

fun monitor_borrar :: "int list \<Rightarrow> (int \<times> nat) list \<Rightarrow> (int \<times> nat) list" where
  "monitor_borrar [] d = d"
| "monitor_borrar (cid # eliminar) d = monitor_borrar eliminar (dict_del cid d)"

text \<open>One cycle of the monitor, after its sleep: both loops, under the lock.\<close>

definition monitor_inactividad_ciclo :: "real \<Rightarrow> Sistema \<Rightarrow> Sistema" where
  "monitor_inactividad_ciclo ahora s =
     (case monitor_bucle ahora (chats_activos s) (objetos s, ficheros s, []) of
        (objs, fs, eliminar) \<Rightarrow>
          s\<lparr>objetos := objs, ficheros := fs,
            chats_activos := monitor_borrar eliminar (chats_activos s)\<rparr>)"

text \<open>
  The statements of the main loop under the lock, for an update of chat \<open>cid\<close>.
  \<open>dict_set\<close> is the assignment \<open>d[k] = v\<close>: the value of a key already present is
  replaced in place, a new key goes to the end. \<open>crear_gestor\<close> is
  \<open>chats_activos[chat_id] = GestorChat(chat_id, bot)\<close>, whose constructor reads the clock
  \<open>ahora\<close> and the history file; \<open>resolver_o_crear\<close> is that assignment under its test
  \<open>chat_id not in chats_activos\<close>; \<open>encolar\<close> is
  \<open>chats_activos[chat_id].agregar_mensaje(update)\<close>, which raises \<open>KeyError\<close> for an
  identifier that is not in the dictionary.
\<close>

fun dict_set :: "'k \<Rightarrow> 'v \<Rightarrow> ('k \<times> 'v) list \<Rightarrow> ('k \<times> 'v) list" where
  "dict_set k v [] = [(k, v)]"
| "dict_set k v (kv # d) = (if fst kv = k then (k, v) # d else kv # dict_set k v d)"

definition crear_gestor :: "real \<Rightarrow> int \<Rightarrow> Sistema \<Rightarrow> Sistema" where
  "crear_gestor ahora cid s =
     s\<lparr>objetos := objetos s @ [GestorChat_init (ficheros s) cid ahora],
       chats_activos := dict_set cid (length (objetos s)) (chats_activos s)\<rparr>"

definition resolver_o_crear :: "real \<Rightarrow> int \<Rightarrow> Sistema \<Rightarrow> Sistema" where
  "resolver_o_crear ahora cid s =
     (if map_of (chats_activos s) cid = None then crear_gestor ahora cid s else s)"

definition encolar :: "real \<Rightarrow> int \<Rightarrow> Update \<Rightarrow> Sistema \<Rightarrow> excepcion + Sistema" where
  "encolar ahora cid u s =
     (case map_of (chats_activos s) cid of
        None \<Rightarrow> Inl (Excepcion (lit ''KeyError''))
      | Some r \<Rightarrow> Inr (s\<lparr>objetos := (objetos s)[r := agregar_mensaje (objetos s ! r) u ahora]\<rparr>))"

text \<open>
  The dictionary is well formed when no identifier and no object occurs twice in it and
  every entry refers to an existing object that was constructed for that identifier.
\<close>

definition bien_formado :: "Sistema \<Rightarrow> bool" where
  "bien_formado s \<longleftrightarrow>
     distinct (map fst (chats_activos s)) \<and> distinct (map snd (chats_activos s))
     \<and> list_all (\<lambda>kv. snd kv < length (objetos s) \<and> chat_id (objetos s ! snd kv) = fst kv)
          (chats_activos s)"

text \<open>The test of the monitor on one worker.\<close>

definition inactivo :: "real \<Rightarrow> GestorChat \<Rightarrow> bool" where
  "inactivo ahora g \<longleftrightarrow>
     ahora - ultima_actividad g > TIEMPO_INACTIVIDAD_MAX \<and> cola_mensajes g = []"

text \<open>Every active worker is the one the dictionary has for its chat.\<close>

definition registrados :: "Sistema \<Rightarrow> bool" where
  "registrados s \<longleftrightarrow>
     (\<forall>r < length (objetos s).
        activo (objetos s ! r) \<longrightarrow> map_of (chats_activos s) (chat_id (objetos s ! r)) = Some r)"

section \<open>Threads and the lock\<close>

text \<open>
  The threads that touch the dictionary are the main loop and the monitor; both do so
  inside \<open>with lock_chats\<close>. To cover concurrent first contacts, any number of threads
  may run the body of the main loop, thread \<open>i\<close> being at one of these places: outside the
  block; inside, before the test \<open>chat_id not in chats_activos\<close>; before the construction
  and insertion; before the call of \<open>agregar_mensaje\<close>; at the end of the block. The
  monitor is outside of its block; inside, before the first loop (with the clock it read
  before entering); before the second loop (with the list \<open>eliminar\<close>); at the end.
\<close>

datatype pc_principal =
  P_fuera
| P_comprobar int Update
| P_crear int Update
| P_encolar int Update
| P_soltar

datatype pc_monitor =
  Mo_fuera
| Mo_bucle real
| Mo_borrar "int list"
| Mo_soltar

datatype hilo = Principal nat | Monitor

record Concurrente =
  sistema :: Sistema
  traza :: "efecto list"
  lock_chats :: "hilo option"
  pc_principal :: "nat \<Rightarrow> pc_principal"
  pc_monitor :: pc_monitor

text \<open>
  The steps a scheduler can choose. \<open>threading.Lock\<close>: a thread enters the block only
  when no thread holds the lock, and holds it until it leaves the block. A worker's
  thread never takes the lock; its step is one iteration of its loop.
\<close>

datatype evento =
  Adquiere nat Update
| Comprueba nat
| Crea nat real
| Encola nat real
| Suelta nat
| Monitor_adquiere real
| Monitor_escanea
| Monitor_borra
| Monitor_suelta
| Trabaja nat real

text \<open>One step; \<open>None\<close> when the thread is not at that place or has to wait for the lock.\<close>

fun paso :: "entorno \<Rightarrow> Concurrente \<Rightarrow> evento \<Rightarrow> Concurrente option" where
  "paso env c (Adquiere i u) =
     (case message u of
        None \<Rightarrow> None
      | Some m \<Rightarrow>
          if pc_principal c i = P_fuera \<and> lock_chats c = None
          then Some (c\<lparr>lock_chats := Some (Principal i),
                       pc_principal := (pc_principal c)(i := P_comprobar (msg_chat_id m) u)\<rparr>)
          else None)"
| "paso env c (Comprueba i) =
     (case pc_principal c i of
        P_comprobar cid u \<Rightarrow>
          Some (c\<lparr>pc_principal := (pc_principal c)
                  (i := if map_of (chats_activos (sistema c)) cid = None
                        then P_crear cid u else P_encolar cid u)\<rparr>)
      | _ \<Rightarrow> None)"
| "paso env c (Crea i ahora) =
     (case pc_principal c i of
        P_crear cid u \<Rightarrow>
          Some (c\<lparr>sistema := crear_gestor ahora cid (sistema c),
                  pc_principal := (pc_principal c)(i := P_encolar cid u)\<rparr>)
      | _ \<Rightarrow> None)"
| "paso env c (Encola i ahora) =
     (case pc_principal c i of
        P_encolar cid u \<Rightarrow>
          (case encolar ahora cid u (sistema c) of
             Inr s' \<Rightarrow> Some (c\<lparr>sistema := s', pc_principal := (pc_principal c)(i := P_soltar)\<rparr>)
           | Inl e \<Rightarrow> Some (c\<lparr>pc_principal := (pc_principal c)(i := P_soltar)\<rparr>))
      | _ \<Rightarrow> None)"
| "paso env c (Suelta i) =
     (case pc_principal c i of
        P_soltar \<Rightarrow>
          Some (c\<lparr>lock_chats := None, pc_principal := (pc_principal c)(i := P_fuera)\<rparr>)
      | _ \<Rightarrow> None)"
| "paso env c (Monitor_adquiere ahora) =
     (if pc_monitor c = Mo_fuera \<and> lock_chats c = None
      then Some (c\<lparr>lock_chats := Some Monitor, pc_monitor := Mo_bucle ahora\<rparr>)
      else None)"
| "paso env c Monitor_escanea =
     (case pc_monitor c of
        Mo_bucle ahora \<Rightarrow>
          (case monitor_bucle ahora (chats_activos (sistema c))
                  (objetos (sistema c), ficheros (sistema c), []) of
             (objs, fs, eliminar) \<Rightarrow>
               Some (c\<lparr>sistema := (sistema c)\<lparr>objetos := objs, ficheros := fs\<rparr>,
                       pc_monitor := Mo_borrar eliminar\<rparr>))
      | _ \<Rightarrow> None)"
| "paso env c Monitor_borra =
     (case pc_monitor c of
        Mo_borrar eliminar \<Rightarrow>
          Some (c\<lparr>sistema := (sistema c)
                    \<lparr>chats_activos := monitor_borrar eliminar (chats_activos (sistema c))\<rparr>,
                  pc_monitor := Mo_soltar\<rparr>)
      | _ \<Rightarrow> None)"
| "paso env c Monitor_suelta =
     (case pc_monitor c of
        Mo_soltar \<Rightarrow> Some (c\<lparr>lock_chats := None, pc_monitor := Mo_fuera\<rparr>)
      | _ \<Rightarrow> None)"
| "paso env c (Trabaja r ahora) =
     (if r < length (objetos (sistema c))
      then (case procesar_cola_iteracion env ahora (traza c, objetos (sistema c) ! r) of
              (tr', g') \<Rightarrow>
                Some (c\<lparr>sistema := (sistema c)\<lparr>objetos := (objetos (sistema c))[r := g']\<rparr>,
                        traza := tr'\<rparr>))
      else None)"

fun correr :: "entorno \<Rightarrow> Concurrente \<Rightarrow> evento list \<Rightarrow> Concurrente option" where
  "correr env c [] = Some c"
| "correr env c (ev # evs) =
     (case paso env c ev of None \<Rightarrow> None | Some c' \<Rightarrow> correr env c' evs)"

text \<open>The program at its start: no worker, the files found on disk, every thread outside.\<close>

definition inicial :: "archivos \<Rightarrow> Concurrente" where
  "inicial fs =
     \<lparr>sistema = \<lparr>objetos = [], chats_activos = [], ficheros = fs\<rparr>,
      traza = [], lock_chats = None, pc_principal = (\<lambda>i. P_fuera), pc_monitor = Mo_fuera\<rparr>"

text \<open>
  What holds in every state the threads can reach: a thread inside its block holds the
  lock; the dictionary is well formed; every active worker is the one the dictionary has
  for its chat; a thread about to construct a worker does so for an identifier that is
  not in the dictionary; and the workers the monitor is about to remove are stopped.
\<close>

definition invariante :: "Concurrente \<Rightarrow> bool" where
  "invariante c \<longleftrightarrow>
     bien_formado (sistema c)
     \<and> (\<forall>i. pc_principal c i \<noteq> P_fuera \<longrightarrow> lock_chats c = Some (Principal i))
     \<and> (pc_monitor c \<noteq> Mo_fuera \<longrightarrow> lock_chats c = Some Monitor)
     \<and> registrados (sistema c)
     \<and> (\<forall>i cid u. pc_principal c i = P_crear cid u \<longrightarrow>
           map_of (chats_activos (sistema c)) cid = None)
     \<and> (\<forall>eliminar cid r. pc_monitor c = Mo_borrar eliminar \<longrightarrow> cid \<in> set eliminar \<longrightarrow>
           map_of (chats_activos (sistema c)) cid = Some r \<longrightarrow>
           \<not> activo (objetos (sistema c) ! r))"

text \<open>
  Concrete states and schedules: three workers, of which only the one of chat 42 is idle
  with an empty queue at time 301; and two threads of the main loop that each bring a first
  update of chat 42.
\<close>

definition sistema_tres :: Sistema where
  "sistema_tres =
     \<lparr>objetos =
        [gestor_hablado,
         gestor_42\<lparr>chat_id := 7, cola_mensajes := [update_foto]\<rparr>,
         gestor_42\<lparr>chat_id := 9, ultima_actividad := 1\<rparr>],
      chats_activos = [(42, 0), (7, 1), (9, 2)],
      ficheros = Map.empty\<rparr>"

definition eventos_42 :: "evento list" where
  "eventos_42 =
     [Adquiere 0 update_hola, Comprueba 0, Crea 0 10, Encola 0 11, Suelta 0,
      Adquiere 1 update_voz, Comprueba 1, Encola 1 12, Suelta 1]"

text \<open>
  Histories for the round trip through the file: a reply of two lines, and the user line of
  an empty question. A line is clean when it is not empty, holds no line feed and no
  carriage return, and neither begins nor ends with white space.
\<close>

definition gestor_multilinea :: GestorChat where
  "gestor_multilinea =
     gestor_42\<lparr>memoria := [lit ''Usuario: hola'', lit ''Asistente: uno'' @ [10] @ lit ''dos'']\<rparr>"

definition gestor_sin_pregunta :: GestorChat where
  "gestor_sin_pregunta =
     gestor_42\<lparr>memoria := [lit ''Usuario: '', lit ''Asistente: '' @ [161] @ lit ''Hola!'']\<rparr>"

definition linea_limpia :: "str \<Rightarrow> bool" where
  "linea_limpia l \<longleftrightarrow>
     l \<noteq> [] \<and> 10 \<notin> set l \<and> 13 \<notin> set l \<and> \<not> isspace (hd l) \<and> \<not> isspace (last l)"

section \<open>Properties of the chunking\<close>

lemma concat_trozos: "concat (trozos i r) = drop i r"
proof (induction i r rule: trozos.induct)
  case (1 i r)
  show ?case
  proof (cases "i < length r")
    case True
    have "concat (trozos i r) = take 4000 (drop i r) @ drop 4000 (drop i r)"
      using True 1 by (simp add: trozos.simps [of i r] add.commute)
    then show ?thesis by (simp only: append_take_drop_id)
  next
    case False
    then show ?thesis by (simp add: trozos.simps [of i r])
  qed
qed

lemma techo_paso:
  fixes d :: nat
  assumes "0 < d"
  shows "Suc ((d - 4000 + 3999) div 4000) = (d + 3999) div 4000"
proof (cases "4000 \<le> d")
  case True
  then obtain e where e: "d = e + 4000"
    by (metis le_add_diff_inverse2)
  show ?thesis unfolding e by simp
next
  case False
  with assms have "(d + 3999) div 4000 = 1"
    by (intro div_nat_eqI) simp_all
  with False show ?thesis by simp
qed

lemma length_trozos: "length (trozos i r) = (length r - i + 3999) div 4000"
proof (induction i r rule: trozos.induct)
  case (1 i r)
  show ?case
  proof (cases "i < length r")
    case True
    then have pos: "0 < length r - i" by simp
    have "length (trozos i r) = Suc ((length r - (i + 4000) + 3999) div 4000)"
      using True 1 by (simp add: trozos.simps [of i r])
    also have "length r - (i + 4000) = length r - i - 4000"
      by simp
    finally show ?thesis
      using techo_paso [OF pos] by simp
  next
    case False
    then show ?thesis by (simp add: trozos.simps [of i r])
  qed
qed

lemma trozos_acotados: "c \<in> set (trozos i r) \<Longrightarrow> length c \<le> 4000"
proof (induction i r rule: trozos.induct)
  case (1 i r)
  then show ?case
    by (cases "i < length r") (auto simp add: trozos.simps [of i r])
qed

lemma techo_div: "nat \<lceil>real L / 4000\<rceil> = (L + 3999) div 4000"
  by linarith

lemma length_adecuar_respuesta:
  "length (adecuar_respuesta r) = (if r = [] then 1 else (length r + 3999) div 4000)"
proof (cases "length r < 4000")
  case True
  then have "r \<noteq> [] \<Longrightarrow> (length r + 3999) div 4000 = 1"
    by (intro div_nat_eqI) (simp_all add: Suc_le_eq)
  with True show ?thesis by (simp add: adecuar_respuesta_def)
next
  case False
  then have "r \<noteq> []" by auto
  with False show ?thesis by (simp add: adecuar_respuesta_def length_trozos)
qed

lemma concat_adecuar_respuesta: "concat (adecuar_respuesta r) = r"
  by (simp add: adecuar_respuesta_def concat_trozos)

text \<open>
  Claim C5, as amended. For every reply \<open>r\<close> of length \<open>L\<close>, \<open>adecuar_respuesta\<close> returns
  \<open>ceil(L/4000)\<close> chunks when \<open>r\<close> is not empty and one (empty) chunk when \<open>r\<close> is empty; every
  chunk has length at most 4000; and the chunks, concatenated in order, are \<open>r\<close>.
\<close>

theorem adecuar_respuesta_trozos:
  "length (adecuar_respuesta r) = (if r = [] then 1 else nat \<lceil>real (length r) / 4000\<rceil>)
   \<and> (\<forall>c \<in> set (adecuar_respuesta r). length c \<le> 4000)
   \<and> concat (adecuar_respuesta r) = r"
proof (intro conjI)
  show "length (adecuar_respuesta r) = (if r = [] then 1 else nat \<lceil>real (length r) / 4000\<rceil>)"
    by (simp add: length_adecuar_respuesta techo_div)
  show "\<forall>c \<in> set (adecuar_respuesta r). length c \<le> 4000"
    by (auto simp add: adecuar_respuesta_def trozos_acotados)
  show "concat (adecuar_respuesta r) = r"
    by (rule concat_adecuar_respuesta)
qed

theorem adecuar_respuesta_trozos_witness:
  "length (adecuar_respuesta (replicate 4001 (97::nat))) = 2
   \<and> list_all (\<lambda>c. length c \<le> 4000) (adecuar_respuesta (replicate 4001 (97::nat)))
   \<and> concat (adecuar_respuesta (replicate 4001 (97::nat))) = replicate 4001 97"
proof -
  have "nat \<lceil>real (length (replicate 4001 (97::nat))) / 4000\<rceil> = 2"
    by (simp add: techo_div)
  moreover have "replicate 4001 (97::nat) \<noteq> []"
    by (simp only: replicate_empty)
  ultimately show ?thesis
    using adecuar_respuesta_trozos [of "replicate 4001 (97::nat)"]
    by (simp only: if_False list_all_iff) blast
qed

text \<open>
  Claim C5 as stated fails on the empty reply: its length is 0, so \<open>ceil(L/4000)\<close> is 0,
  but the guard \<open>len(respuesta) < 4000\<close> returns the one-element list holding the empty
  string.
\<close>

theorem adecuar_respuesta_vacia_counterexample:
  "length (adecuar_respuesta ([]::str)) \<noteq> nat \<lceil>real (length ([]::str)) / 4000\<rceil>"
  by (simp add: adecuar_respuesta_def)

section \<open>Properties of a worker\<close>

lemma length_deque_append: "length d \<le> maxlen \<Longrightarrow> length (deque_append d x) \<le> maxlen"
  by (auto simp add: deque_append_def Let_def)

lemma deque_append_lleno: "length d = maxlen \<Longrightarrow> deque_append d x = tl d @ [x]"
  by (cases d) (auto simp add: deque_append_def Let_def maxlen_def)

lemma deque_append_no_lleno: "length d < maxlen \<Longrightarrow> deque_append d x = d @ [x]"
  by (auto simp add: deque_append_def Let_def)

lemma length_foldl_deque_append:
  "length d \<le> maxlen \<Longrightarrow> length (foldl deque_append d xs) \<le> maxlen"
  by (induction xs arbitrary: d) (simp_all add: length_deque_append)

lemma deque_append_sufijo: "\<exists>ys. deque_append d x = ys @ [x]"
  by (cases d) (simp_all add: deque_append_def Let_def maxlen_def)

lemma deque_append_snoc: "\<exists>zs. deque_append (ys @ [a]) b = zs @ [a, b]"
  by (cases ys) (simp_all add: deque_append_def Let_def maxlen_def)

lemma deque_append_dos: "\<exists>ys. deque_append (deque_append d a) b = ys @ [a, b]"
proof -
  obtain ys where ys: "deque_append d a = ys @ [a]"
    using deque_append_sufijo [of d a] by (elim exE)
  show ?thesis
    unfolding ys by (rule deque_append_snoc)
qed

lemma procesados_append: "procesados (a @ b) = procesados a @ procesados b"
  by (induction a rule: procesados.induct) simp_all

lemma textos_enviados_append: "textos_enviados (a @ b) = textos_enviados a @ textos_enviados b"
  by (induction a rule: textos_enviados.induct) simp_all

lemma textos_enviados_map: "textos_enviados (map (Mensaje_enviado cid) ps) = ps"
  by (induction ps) simp_all

lemma procesados_map: "procesados (map (Mensaje_enviado cid) ps) = []"
  by (induction ps) simp_all

lemma enviar_partes_ok:
  "\<forall>p \<in> set ps. sendMessage env cid p = None \<Longrightarrow>
   enviar_partes env cid ps tr = (tr @ map (Mensaje_enviado cid) ps, None)"
  by (induction ps arbitrary: tr) simp_all

lemma enviar_partes_traza:
  "enviar_partes env cid ps tr = (tr', e) \<Longrightarrow>
   \<exists>qs. tr' = tr @ map (Mensaje_enviado cid) qs \<and> length qs \<le> length ps"
proof (induction ps arbitrary: tr)
  case Nil
  then show ?case by simp
next
  case (Cons p ps)
  show ?case
  proof (cases "sendMessage env cid p")
    case None
    with Cons.prems have "enviar_partes env cid ps (tr @ [Mensaje_enviado cid p]) = (tr', e)"
      by simp
    from Cons.IH [OF this] obtain qs where
      "tr' = (tr @ [Mensaje_enviado cid p]) @ map (Mensaje_enviado cid) qs" "length qs \<le> length ps"
      by blast
    then have "tr' = tr @ map (Mensaje_enviado cid) (p # qs) \<and> length (p # qs) \<le> length (p # ps)"
      by simp
    then show ?thesis by blast
  next
    case (Some e')
    with Cons.prems have "tr' = tr @ map (Mensaje_enviado cid) []" by simp
    then show ?thesis by (metis le0 list.size(3))
  qed
qed

lemma enviar_audio_traza:
  "enviar_audio env cid r tr = (tr', e) \<Longrightarrow> procesados tr' = procesados tr \<and> textos_enviados tr' = textos_enviados tr"
  by (auto simp add: enviar_audio_def procesados_append textos_enviados_append
      split: option.splits if_splits)

lemma procesar_update_sin_pregunta:
  assumes "message u = Some m" "obtener_pregunta env m = Inr None"
  shows "procesar_update env tr g u = (tr @ [Procesando (chat_id g) u], g, None)"
  using assms by (simp add: procesar_update_def Let_def)

lemma procesar_update_excepcion_pregunta:
  assumes "message u = Some m" "obtener_pregunta env m = Inl e"
  shows "procesar_update env tr g u = (tr @ [Procesando (chat_id g) u], g, Some e)"
  using assms by (simp add: procesar_update_def Let_def)

lemma procesar_update_sin_mensaje:
  assumes "message u = None"
  shows "\<exists>e. procesar_update env tr g u = (tr @ [Procesando (chat_id g) u], g, Some e)"
  using assms by (simp add: procesar_update_def Let_def)

lemma procesar_update_con_pregunta:
  assumes "message u = Some m" "obtener_pregunta env m = Inr (Some q)"
  shows "procesar_update env tr g u =
     (case enviar_partes env (chat_id g) (adecuar_respuesta (respuesta_de env g q))
             (tr @ [Procesando (chat_id g) u]) of
        (tr1, Some e) \<Rightarrow> (tr1, g\<lparr>memoria := memoria_tras g q (respuesta_de env g q)\<rparr>, Some e)
      | (tr1, None) \<Rightarrow>
          (case enviar_audio env (chat_id g) (respuesta_de env g q) tr1 of
             (tr2, e2) \<Rightarrow> (tr2, g\<lparr>memoria := memoria_tras g q (respuesta_de env g q)\<rparr>, e2)))"
  using assms
  by (simp add: procesar_update_def Let_def respuesta_de_def memoria_tras_def
      split: prod.splits option.splits)

lemma procesar_update_memoria:
  assumes "message u = Some m" "obtener_pregunta env m = Inr (Some q)"
    and "procesar_update env tr g u = (tr', g', e)"
  shows "g' = g\<lparr>memoria := memoria_tras g q (respuesta_de env g q)\<rparr>"
  using assms(3) unfolding procesar_update_con_pregunta [OF assms(1,2)]
  by (auto split: prod.splits option.splits)

lemma procesar_update_entregado:
  assumes "message u = Some m" "obtener_pregunta env m = Inr (Some q)"
    and "\<forall>p \<in> set (adecuar_respuesta (respuesta_de env g q)). sendMessage env (chat_id g) p = None"
    and "procesar_update env tr g u = (tr', g', e)"
  shows "textos_enviados tr' = textos_enviados tr @ adecuar_respuesta (respuesta_de env g q)"
    and "(tr', e) = enviar_audio env (chat_id g) (respuesta_de env g q)
           (tr @ [Procesando (chat_id g) u]
            @ map (Mensaje_enviado (chat_id g)) (adecuar_respuesta (respuesta_de env g q)))"
proof -
  let ?r = "respuesta_de env g q"
  let ?tr1 = "(tr @ [Procesando (chat_id g) u]) @ map (Mensaje_enviado (chat_id g)) (adecuar_respuesta ?r)"
  have ep: "enviar_partes env (chat_id g) (adecuar_respuesta ?r) (tr @ [Procesando (chat_id g) u])
            = (?tr1, None)"
    using assms(3) by (rule enviar_partes_ok)
  have eq: "procesar_update env tr g u =
      (case enviar_audio env (chat_id g) ?r ?tr1 of
         (tr2, e2) \<Rightarrow> (tr2, g\<lparr>memoria := memoria_tras g q ?r\<rparr>, e2))"
    unfolding procesar_update_con_pregunta [OF assms(1,2)] ep by simp
  obtain tr2 e2 where ea: "enviar_audio env (chat_id g) ?r ?tr1 = (tr2, e2)"
    by (cases "enviar_audio env (chat_id g) ?r ?tr1") blast
  with eq assms(4) have "tr' = tr2" "e = e2" by simp_all
  with ea show "(tr', e) = enviar_audio env (chat_id g) ?r
           (tr @ [Procesando (chat_id g) u] @ map (Mensaje_enviado (chat_id g)) (adecuar_respuesta ?r))"
    by simp
  from enviar_audio_traza [OF ea] \<open>tr' = tr2\<close>
  show "textos_enviados tr' = textos_enviados tr @ adecuar_respuesta ?r"
    by (simp add: textos_enviados_append textos_enviados_map)
qed

lemma procesar_update_campos:
  assumes "procesar_update env tr g u = (tr', g', e)"
  shows "chat_id g' = chat_id g \<and> cola_mensajes g' = cola_mensajes g
     \<and> ultima_actividad g' = ultima_actividad g \<and> activo g' = activo g
     \<and> procesados tr' = procesados tr @ [u]
     \<and> (length (memoria g) \<le> maxlen \<longrightarrow> length (memoria g') \<le> maxlen)"
proof (cases "message u")
  case None
  with assms procesar_update_sin_mensaje [OF None, of env tr g]
  show ?thesis by (auto simp add: procesados_append)
next
  case (Some m)
  show ?thesis
  proof (cases "obtener_pregunta env m")
    case (Inl ex)
    with assms procesar_update_excepcion_pregunta [OF Some Inl, of tr g]
    show ?thesis by (auto simp add: procesados_append)
  next
    case (Inr po)
    show ?thesis
    proof (cases po)
      case None
      with Inr assms procesar_update_sin_pregunta [OF Some, of env tr g]
      show ?thesis by (auto simp add: procesados_append)
    next
      case (Some q)
      let ?r = "respuesta_de env g q"
      from Inr Some have oq: "obtener_pregunta env m = Inr (Some q)" by simp
      have g': "g' = g\<lparr>memoria := memoria_tras g q ?r\<rparr>"
        using procesar_update_memoria [OF \<open>message u = Some m\<close> oq assms] .
      obtain tr1 e1 where ep: "enviar_partes env (chat_id g) (adecuar_respuesta ?r)
             (tr @ [Procesando (chat_id g) u]) = (tr1, e1)"
        by (cases "enviar_partes env (chat_id g) (adecuar_respuesta ?r) (tr @ [Procesando (chat_id g) u])") blast
      from enviar_partes_traza [OF ep] obtain qs where
        tr1: "tr1 = (tr @ [Procesando (chat_id g) u]) @ map (Mensaje_enviado (chat_id g)) qs"
        by blast
      have p1: "procesados tr1 = procesados tr @ [u]"
        unfolding tr1 by (simp add: procesados_append procesados_map)
      have "procesados tr' = procesados tr @ [u]"
      proof (cases e1)
        case None
        obtain tr2 e2 where ea: "enviar_audio env (chat_id g) ?r tr1 = (tr2, e2)"
          by (cases "enviar_audio env (chat_id g) ?r tr1") blast
        from assms have "tr' = tr2"
          unfolding procesar_update_con_pregunta [OF \<open>message u = Some m\<close> oq] ep None
          by (simp add: ea)
        with enviar_audio_traza [OF ea] p1 show ?thesis by simp
      next
        case (Some ex)
        from assms have "tr' = tr1"
          unfolding procesar_update_con_pregunta [OF \<open>message u = Some m\<close> oq] ep Some
          by simp
        with p1 show ?thesis by simp
      qed
      moreover have "length (memoria g) \<le> maxlen \<longrightarrow> length (memoria g') \<le> maxlen"
        unfolding g' by (simp add: memoria_tras_def length_deque_append)
      ultimately show ?thesis unfolding g' by simp
    qed
  qed
qed

lemma procesar_cola_iteracion_inactivo:
  "\<not> activo g \<Longrightarrow> procesar_cola_iteracion env ahora (tr, g) = (tr, g)"
  by (simp add: procesar_cola_iteracion_def)

lemma procesar_cola_iteracion_vacia:
  "cola_mensajes g = [] \<Longrightarrow> procesar_cola_iteracion env ahora (tr, g) = (tr, g)"
  by (simp add: procesar_cola_iteracion_def)

lemma procesar_cola_iteracion_procesa:
  assumes "activo g" "cola_mensajes g = u # cola"
    and "procesar_cola_iteracion env ahora (tr, g) = (tr', g')"
  shows "cola_mensajes g' = cola \<and> procesados tr' = procesados tr @ [u]
     \<and> ultima_actividad g' = ahora \<and> activo g' \<and> chat_id g' = chat_id g
     \<and> (length (memoria g) \<le> maxlen \<longrightarrow> length (memoria g') \<le> maxlen)"
proof -
  obtain tr1 g1 e1 where pu: "procesar_update env tr (g\<lparr>cola_mensajes := cola\<rparr>) u = (tr1, g1, e1)"
    by (cases "procesar_update env tr (g\<lparr>cola_mensajes := cola\<rparr>) u") blast
  from procesar_update_campos [OF pu]
  have c: "chat_id g1 = chat_id g" "cola_mensajes g1 = cola" "activo g1 = activo g"
    "procesados tr1 = procesados tr @ [u]"
    "length (memoria g) \<le> maxlen \<longrightarrow> length (memoria g1) \<le> maxlen"
    by simp_all
  from assms pu have "g' = g1\<lparr>ultima_actividad := ahora\<rparr>"
    "tr' = tr1 \<or> (\<exists>e. tr' = tr1 @ [Error_en_chat (chat_id g1) e])"
    by (auto simp add: procesar_cola_iteracion_def split: option.splits)
  with c assms(1) show ?thesis by (auto simp add: procesados_append)
qed


lemma procesar_cola_iteracion_inv:
  assumes "procesar_cola_iteracion env ahora (tr, g) = (tr', g')"
  shows "procesados tr' @ cola_mensajes g' = procesados tr @ cola_mensajes g
     \<and> chat_id g' = chat_id g \<and> activo g' = activo g
     \<and> (length (memoria g) \<le> maxlen \<longrightarrow> length (memoria g') \<le> maxlen)"
proof (cases "activo g \<and> cola_mensajes g \<noteq> []")
  case True
  then obtain u cola where c: "cola_mensajes g = u # cola"
    by (cases "cola_mensajes g") auto
  from True have a: "activo g" by simp
  from procesar_cola_iteracion_procesa [OF a c assms] a c show ?thesis by simp
next
  case False
  then have "procesar_cola_iteracion env ahora (tr, g) = (tr, g)"
    by (auto simp add: procesar_cola_iteracion_inactivo procesar_cola_iteracion_vacia)
  with assms show ?thesis by simp
qed

lemma ejecutar_accion_inv:
  assumes "ejecutar_accion env (fs, tr, g) a = (fs', tr', g')"
  shows "procesados tr' @ cola_mensajes g' = procesados tr @ cola_mensajes g @ encolados [a]
     \<and> chat_id g' = chat_id g
     \<and> (length (memoria g) \<le> maxlen \<longrightarrow> length (memoria g') \<le> maxlen)"
proof (cases a)
  case (Encolar u ahora)
  with assms show ?thesis by (auto simp add: agregar_mensaje_def)
next
  case (Iterar ahora)
  obtain tr1 g1 where it: "procesar_cola_iteracion env ahora (tr, g) = (tr1, g1)"
    by (cases "procesar_cola_iteracion env ahora (tr, g)") blast
  with assms Iterar have "tr' = tr1" "g' = g1" by simp_all
  with procesar_cola_iteracion_inv [OF it] Iterar show ?thesis by simp
next
  case Parar
  with assms show ?thesis by (auto simp add: detener_def Let_def)
qed

lemma encolados_Cons: "encolados (a # acciones) = encolados [a] @ encolados acciones"
  by (cases a) simp_all

lemma ejecutar_Cons:
  "ejecutar env st (a # acciones) = ejecutar env (ejecutar_accion env st a) acciones"
  by (simp add: ejecutar_def)

lemma ejecutar_inv:
  "ejecutar env (fs, tr, g) acciones = (fs', tr', g') \<Longrightarrow>
   procesados tr' @ cola_mensajes g' = procesados tr @ cola_mensajes g @ encolados acciones
   \<and> chat_id g' = chat_id g
   \<and> (length (memoria g) \<le> maxlen \<longrightarrow> length (memoria g') \<le> maxlen)"
proof (induction acciones arbitrary: fs tr g)
  case Nil
  then show ?case by (simp add: ejecutar_def)
next
  case (Cons a acciones)
  obtain fs1 tr1 g1 where st: "ejecutar_accion env (fs, tr, g) a = (fs1, tr1, g1)"
    by (cases "ejecutar_accion env (fs, tr, g) a") blast
  with Cons.prems have "ejecutar env (fs1, tr1, g1) acciones = (fs', tr', g')"
    by (simp add: ejecutar_Cons)
  from Cons.IH [OF this] ejecutar_accion_inv [OF st] show ?case
    by (simp add: encolados_Cons [of a acciones])
qed


lemma ejecutar_sin_parar:
  "Parar \<notin> set acciones \<Longrightarrow> fst (ejecutar env (fs, tr, g) acciones) = fs"
proof (induction acciones arbitrary: tr g)
  case Nil
  then show ?case by (simp add: ejecutar_def)
next
  case (Cons a acciones)
  show ?case
  proof (cases a)
    case (Encolar u ahora)
    with Cons show ?thesis by (simp add: ejecutar_Cons)
  next
    case (Iterar ahora)
    obtain tr1 g1 where "procesar_cola_iteracion env ahora (tr, g) = (tr1, g1)"
      by (cases "procesar_cola_iteracion env ahora (tr, g)") blast
    with Cons Iterar show ?thesis by (simp add: ejecutar_Cons)
  next
    case Parar
    with Cons.prems show ?thesis by simp
  qed
qed

lemma gestor_42_eq:
  "gestor_42 = \<lparr>chat_id = 42, cola_mensajes = [], ultima_actividad = 0, memoria = [], activo = True\<rparr>"
  by (simp add: gestor_42_def GestorChat_init_def cargar_historial_def)

lemma obtener_pregunta_texto:
  "msg_audio m = None \<Longrightarrow> msg_voice m = None \<Longrightarrow> msg_text m = Some t \<Longrightarrow> t \<noteq> [] \<Longrightarrow>
   obtener_pregunta env m = Inr (Some t)"
  by (simp add: obtener_pregunta_def)

lemma obtener_pregunta_audio:
  "msg_audio m = Some fid \<or> (msg_audio m = None \<and> msg_voice m = Some fid) \<Longrightarrow>
   obt_audio env fid = Inr b \<Longrightarrow>
   obtener_pregunta env m = Inr (Some (response_openweb_transcriptor env b))"
  by (auto simp add: obtener_pregunta_def split: option.splits)

lemma obtener_pregunta_ninguna:
  "obtener_pregunta env m = Inr None \<longleftrightarrow>
   msg_audio m = None \<and> msg_voice m = None \<and> (msg_text m = None \<or> msg_text m = Some [])"
  by (auto simp add: obtener_pregunta_def split: option.splits sum.splits)

lemma memoria_tras_corta:
  "length (memoria g) \<le> 4 \<Longrightarrow>
   memoria_tras g q r = memoria g @ [lit ''Usuario: '' @ q, lit ''Asistente: '' @ r]"
  by (simp add: memoria_tras_def deque_append_def Let_def maxlen_def)

lemma respuesta_generada:
  "gemini_flash env (prompt_completo (detectar_idioma env t) h t) = Inr reply \<Longrightarrow>
   response_gemini_consulta_documentos env t h = reply"
  by (simp add: response_gemini_consulta_documentos_def Let_def)

lemma respuesta_error:
  "gemini_flash env (prompt_completo (detectar_idioma env t) h t) = Inl (Excepcion msg) \<Longrightarrow>
   response_gemini_consulta_documentos env t h
     = lit ''Lo siento, hubo un error procesando tu solicitud: '' @ msg"
  by (simp add: response_gemini_consulta_documentos_def Let_def)

lemma procesar_update_hola:
  "procesar_update entorno_hola [] gestor_42 update_hola
     = ([Procesando 42 update_hola, Mensaje_enviado 42 ([161] @ lit ''Hola!'')],
        gestor_42\<lparr>memoria := [lit ''Usuario: hola'', lit ''Asistente: '' @ [161] @ lit ''Hola!'']\<rparr>,
        None)"
  by (simp add: gestor_42_eq procesar_update_def obtener_pregunta_def update_hola_def
      entorno_hola_def response_gemini_consulta_documentos_def detectar_idioma_def
      deque_append_def maxlen_def adecuar_respuesta_def enviar_audio_def
      response_openweb_lectura_def lit_def Let_def)

text \<open>
  Claim C7. Processing an update that carries a non-empty text and no audio appends two
  lines to the history through the bounded deque: first \<open>Usuario: \<close> followed by the text, then
  \<open>Asistente: \<close> followed by the reply \<open>r\<close> of \<open>response_gemini_consulta_documentos\<close>; they are
  the last two lines of the history afterwards, in that order, and with room for both
  nothing else changes. When every delivery succeeds the texts sent are the chunks of the
  reply. The reply is what the generation returned, when it returned. In the scenario, the
  worker of chat 42 with empty history processes the text "hola" with generated reply
  "\<exclamdown>Hola!": one text is sent, the reply, and the history is the two lines.
\<close>

theorem procesar_update_texto:
  "(message u = Some m \<and> msg_audio m = None \<and> msg_voice m = None \<and> msg_text m = Some t \<and> t \<noteq> []
     \<and> r = response_gemini_consulta_documentos env t (str_join [10] (memoria g))
     \<and> procesar_update env tr g u = (tr', g', e) \<longrightarrow>
       memoria g' = deque_append (deque_append (memoria g) (lit ''Usuario: '' @ t))
                      (lit ''Asistente: '' @ r)
       \<and> (\<exists>ys. memoria g' = ys @ [lit ''Usuario: '' @ t, lit ''Asistente: '' @ r])
       \<and> (length (memoria g) \<le> 4 \<longrightarrow>
            memoria g' = memoria g @ [lit ''Usuario: '' @ t, lit ''Asistente: '' @ r])
       \<and> ((\<forall>p \<in> set (adecuar_respuesta r). sendMessage env (chat_id g) p = None) \<longrightarrow>
            textos_enviados tr' = textos_enviados tr @ adecuar_respuesta r))
   \<and> (gemini_flash env (prompt_completo (detectar_idioma env t) h t) = Inr reply \<longrightarrow>
        response_gemini_consulta_documentos env t h = reply)
   \<and> memoria gestor_42 = []
   \<and> procesar_update entorno_hola [] gestor_42 update_hola
       = ([Procesando 42 update_hola, Mensaje_enviado 42 ([161] @ lit ''Hola!'')],
          gestor_42\<lparr>memoria := [lit ''Usuario: hola'', lit ''Asistente: '' @ [161] @ lit ''Hola!'']\<rparr>,
          None)"
proof (intro conjI impI)
  assume h: "message u = Some m \<and> msg_audio m = None \<and> msg_voice m = None \<and> msg_text m = Some t
     \<and> t \<noteq> [] \<and> r = response_gemini_consulta_documentos env t (str_join [10] (memoria g))
     \<and> procesar_update env tr g u = (tr', g', e)"
  then have mu: "message u = Some m" and pu: "procesar_update env tr g u = (tr', g', e)"
    and r: "r = respuesta_de env g t"
    by (simp_all add: respuesta_de_def)
  from h have oq: "obtener_pregunta env m = Inr (Some t)"
    by (simp add: obtener_pregunta_texto)
  from procesar_update_memoria [OF mu oq pu]
  have mem: "memoria g' = memoria_tras g t r" by (simp add: r)
  then show "memoria g' = deque_append (deque_append (memoria g) (lit ''Usuario: '' @ t))
                      (lit ''Asistente: '' @ r)"
    by (simp add: memoria_tras_def)
  then show "\<exists>ys. memoria g' = ys @ [lit ''Usuario: '' @ t, lit ''Asistente: '' @ r]"
    using deque_append_dos [of "memoria g" "lit ''Usuario: '' @ t" "lit ''Asistente: '' @ r"]
    by simp
  {
    assume "length (memoria g) \<le> 4"
    then show "memoria g' = memoria g @ [lit ''Usuario: '' @ t, lit ''Asistente: '' @ r]"
      using mem by (simp add: memoria_tras_corta)
  }
  {
    assume "\<forall>p \<in> set (adecuar_respuesta r). sendMessage env (chat_id g) p = None"
    then show "textos_enviados tr' = textos_enviados tr @ adecuar_respuesta r"
      using procesar_update_entregado(1) [OF mu oq _ pu] by (simp add: r)
  }
next
  assume "gemini_flash env (prompt_completo (detectar_idioma env t) h t) = Inr reply"
  then show "response_gemini_consulta_documentos env t h = reply"
    by (rule respuesta_generada)
next
  show "memoria gestor_42 = []" by (simp add: gestor_42_eq)
next
  show "procesar_update entorno_hola [] gestor_42 update_hola
       = ([Procesando 42 update_hola, Mensaje_enviado 42 ([161] @ lit ''Hola!'')],
          gestor_42\<lparr>memoria := [lit ''Usuario: hola'', lit ''Asistente: '' @ [161] @ lit ''Hola!'']\<rparr>,
          None)"
    by (rule procesar_update_hola)
qed

text \<open>
  The scenario of C7 obtained from the general statement.
\<close>

theorem procesar_update_texto_witness:
  "memoria (fst (snd (procesar_update entorno_hola [] gestor_42 update_hola)))
     = [lit ''Usuario: hola'', lit ''Asistente: '' @ [161] @ lit ''Hola!'']
   \<and> textos_enviados (fst (procesar_update entorno_hola [] gestor_42 update_hola))
     = [[161] @ lit ''Hola!'']"
proof -
  let ?m = "\<lparr>msg_chat_id = 42, msg_text = Some (lit ''hola''), msg_audio = None, msg_voice = None\<rparr>"
  let ?res = "procesar_update entorno_hola [] gestor_42 update_hola"
  have r: "response_gemini_consulta_documentos entorno_hola (lit ''hola'')
             (str_join [10] (memoria gestor_42)) = [161] @ lit ''Hola!''"
    by (simp add: response_gemini_consulta_documentos_def entorno_hola_def Let_def)
  have pre: "message update_hola = Some ?m \<and> msg_audio ?m = None \<and> msg_voice ?m = None
      \<and> msg_text ?m = Some (lit ''hola'') \<and> lit ''hola'' \<noteq> []
      \<and> [161] @ lit ''Hola!'' = response_gemini_consulta_documentos entorno_hola (lit ''hola'')
             (str_join [10] (memoria gestor_42))
      \<and> ?res = (fst ?res, fst (snd ?res), snd (snd ?res))"
    using r by (simp add: update_hola_def lit_def)
  have env: "\<forall>p \<in> set (adecuar_respuesta ([161] @ lit ''Hola!'')). sendMessage entorno_hola (chat_id gestor_42) p = None"
    by (simp add: entorno_hola_def)
  have len: "length (memoria gestor_42) \<le> 4"
    by (simp add: gestor_42_eq)
  from procesar_update_texto [where u = update_hola and m = ?m and t = "lit ''hola''"
      and r = "[161] @ lit ''Hola!''" and env = entorno_hola and g = gestor_42 and tr = "[]"
      and tr' = "fst ?res" and g' = "fst (snd ?res)" and e = "snd (snd ?res)"] pre env len
  have "memoria (fst (snd ?res)) = memoria gestor_42 @ [lit ''Usuario: '' @ lit ''hola'', lit ''Asistente: '' @ [161] @ lit ''Hola!'']"
    and "textos_enviados (fst ?res) = textos_enviados [] @ adecuar_respuesta ([161] @ lit ''Hola!'')"
    by blast+
  then show ?thesis
    by (simp add: gestor_42_eq adecuar_respuesta_def lit_def)
qed

text \<open>
  Claim C10. An update with an audio or voice attachment whose download succeeds and whose
  transcription is the empty string is not skipped: the question obtained is the empty
  string, not \<open>None\<close>; the generation is called with the empty question; \<open>Usuario: \<close> with
  nothing after it and \<open>Asistente: \<close> with the reply are appended; and the reply is sent
  (when every delivery succeeds). A failed transcription gives the empty string. An update
  is skipped, with nothing sent and the worker unchanged, exactly when it has no audio, no
  voice and no text that Python counts as true (\<open>None\<close> or the empty string).
\<close>

theorem procesar_update_audio_vacio:
  "(message u = Some m \<and> (msg_audio m = Some fid \<or> (msg_audio m = None \<and> msg_voice m = Some fid))
     \<and> obt_audio env fid = Inr audio_bytes \<and> response_openweb_transcriptor env audio_bytes = []
     \<and> r = response_gemini_consulta_documentos env [] (str_join [10] (memoria g))
     \<and> procesar_update env tr g u = (tr', g', e) \<longrightarrow>
       obtener_pregunta env m = Inr (Some [])
       \<and> memoria g' = deque_append (deque_append (memoria g) (lit ''Usuario: ''))
                        (lit ''Asistente: '' @ r)
       \<and> ((\<forall>p \<in> set (adecuar_respuesta r). sendMessage env (chat_id g) p = None) \<longrightarrow>
            textos_enviados tr' = textos_enviados tr @ adecuar_respuesta r))
   \<and> (transcripcion env audio_bytes = Inl ex \<longrightarrow> response_openweb_transcriptor env audio_bytes = [])
   \<and> (message u = Some m \<longrightarrow>
        (obtener_pregunta env m = Inr None \<longleftrightarrow>
           msg_audio m = None \<and> msg_voice m = None \<and> (msg_text m = None \<or> msg_text m = Some []))
        \<and> (obtener_pregunta env m = Inr None \<longrightarrow>
             procesar_update env tr g u = (tr @ [Procesando (chat_id g) u], g, None)))"
proof (intro conjI impI)
  assume h: "message u = Some m \<and> (msg_audio m = Some fid \<or> (msg_audio m = None \<and> msg_voice m = Some fid))
     \<and> obt_audio env fid = Inr audio_bytes \<and> response_openweb_transcriptor env audio_bytes = []
     \<and> r = response_gemini_consulta_documentos env [] (str_join [10] (memoria g))
     \<and> procesar_update env tr g u = (tr', g', e)"
  then have mu: "message u = Some m" and pu: "procesar_update env tr g u = (tr', g', e)"
    and r: "r = respuesta_de env g []"
    by (simp_all add: respuesta_de_def)
  from h have "obtener_pregunta env m = Inr (Some (response_openweb_transcriptor env audio_bytes))"
    by (intro obtener_pregunta_audio [of m fid]) simp_all
  with h show oq: "obtener_pregunta env m = Inr (Some [])" by simp
  from procesar_update_memoria [OF mu oq pu]
  show "memoria g' = deque_append (deque_append (memoria g) (lit ''Usuario: ''))
                        (lit ''Asistente: '' @ r)"
    by (simp add: r memoria_tras_def)
  {
    assume "\<forall>p \<in> set (adecuar_respuesta r). sendMessage env (chat_id g) p = None"
    then show "textos_enviados tr' = textos_enviados tr @ adecuar_respuesta r"
      using procesar_update_entregado(1) [OF mu oq _ pu] by (simp add: r)
  }
next
  assume "transcripcion env audio_bytes = Inl ex"
  then show "response_openweb_transcriptor env audio_bytes = []"
    by (simp add: response_openweb_transcriptor_def)
next
  show "obtener_pregunta env m = Inr None \<longleftrightarrow>
           msg_audio m = None \<and> msg_voice m = None \<and> (msg_text m = None \<or> msg_text m = Some [])"
    by (rule obtener_pregunta_ninguna)
next
  assume "message u = Some m" "obtener_pregunta env m = Inr None"
  then show "procesar_update env tr g u = (tr @ [Procesando (chat_id g) u], g, None)"
    by (rule procesar_update_sin_pregunta)
qed

text \<open>
  A voice message whose transcription fails, and a message with neither text nor audio.
\<close>

theorem procesar_update_audio_vacio_witness:
  "memoria (fst (snd (procesar_update entorno_sordo [] gestor_42 update_voz)))
     = [lit ''Usuario: '', lit ''Asistente: '' @ [161] @ lit ''Hola!'']
   \<and> textos_enviados (fst (procesar_update entorno_sordo [] gestor_42 update_voz))
     = [[161] @ lit ''Hola!'']
   \<and> procesar_update entorno_sordo [] gestor_42 update_foto
     = ([Procesando 42 update_foto], gestor_42, None)"
proof -
  let ?m = "\<lparr>msg_chat_id = 42, msg_text = None, msg_audio = None, msg_voice = Some (lit ''AwACAgQ'')\<rparr>"
  let ?f = "\<lparr>msg_chat_id = 42, msg_text = None, msg_audio = None, msg_voice = None\<rparr>"
  let ?res = "procesar_update entorno_sordo [] gestor_42 update_voz"
  let ?r = "[161] @ lit ''Hola!''"
  have r: "response_gemini_consulta_documentos entorno_sordo [] (str_join [10] (memoria gestor_42)) = ?r"
    by (simp add: response_gemini_consulta_documentos_def entorno_sordo_def entorno_hola_def Let_def)
  have pre: "message update_voz = Some ?m
      \<and> (msg_audio ?m = Some (lit ''AwACAgQ'') \<or> (msg_audio ?m = None \<and> msg_voice ?m = Some (lit ''AwACAgQ'')))
      \<and> obt_audio entorno_sordo (lit ''AwACAgQ'') = Inr [73, 68, 51]
      \<and> response_openweb_transcriptor entorno_sordo [73, 68, 51] = []
      \<and> ?r = response_gemini_consulta_documentos entorno_sordo [] (str_join [10] (memoria gestor_42))
      \<and> ?res = (fst ?res, fst (snd ?res), snd (snd ?res))"
    using r
    by (simp add: update_voz_def obt_audio_def response_openweb_transcriptor_def
        entorno_sordo_def entorno_hola_def)
  have env: "\<forall>p \<in> set (adecuar_respuesta ?r). sendMessage entorno_sordo (chat_id gestor_42) p = None"
    by (simp add: entorno_sordo_def entorno_hola_def)
  have foto: "message update_foto = Some ?f" "obtener_pregunta entorno_sordo ?f = Inr None"
    by (simp_all add: update_foto_def obtener_pregunta_def)
  note t1 = procesar_update_audio_vacio [where u = update_voz and m = ?m and fid = "lit ''AwACAgQ''"
      and env = entorno_sordo and audio_bytes = "[73, 68, 51]" and r = ?r and g = gestor_42
      and tr = "[]" and tr' = "fst ?res" and g' = "fst (snd ?res)" and e = "snd (snd ?res)"]
  note t2 = procesar_update_audio_vacio [where u = update_foto and m = ?f
      and env = entorno_sordo and g = gestor_42 and tr = "[]"]
  from t1 pre env
  have "memoria (fst (snd ?res)) = deque_append (deque_append (memoria gestor_42) (lit ''Usuario: ''))
                        (lit ''Asistente: '' @ ?r)"
    and "textos_enviados (fst ?res) = textos_enviados [] @ adecuar_respuesta ?r"
    by blast+
  moreover from t2 foto
  have "procesar_update entorno_sordo [] gestor_42 update_foto
          = ([] @ [Procesando (chat_id gestor_42) update_foto], gestor_42, None)"
    by blast
  ultimately show ?thesis
    by (simp add: gestor_42_eq adecuar_respuesta_def lit_def deque_append_def maxlen_def)
qed

lemma length_prefijo_error:
  "length (lit ''Lo siento, hubo un error procesando tu solicitud: '') = 50"
  by (simp add: lit_def)

lemma adecuar_respuesta_corta: "length r \<le> 4000 \<Longrightarrow> adecuar_respuesta r = [r]"
proof (cases "length r < 4000")
  case True
  then show ?thesis by (simp add: adecuar_respuesta_def)
next
  case False
  assume "length r \<le> 4000"
  with False have l: "length r = 4000" by simp
  then have "trozos 0 r = [take 4000 (drop 0 r)]"
    by (simp add: trozos.simps [of 0 r] trozos.simps [of 4000 r])
  with l show ?thesis by (simp add: adecuar_respuesta_def)
qed

text \<open>
  Claim C6, as amended. When the generation raises an exception with message \<open>msg\<close>, the
  reply is the text \<open>Lo siento, hubo un error procesando tu solicitud: \<close> followed by \<open>msg\<close>;
  the history receives the user line and this text as the assistant line; and, when every
  delivery of a text succeeds, the texts sent are the chunks of this text and the only
  exception \<open>procesar_update\<close> can still raise is the one of the audio delivery. The text is
  a single chunk when \<open>msg\<close> has at most 3950 characters.
\<close>

theorem procesar_update_error_generacion:
  "(message u = Some m \<and> obtener_pregunta env m = Inr (Some q)
     \<and> gemini_flash env (prompt_completo (detectar_idioma env q) (str_join [10] (memoria g)) q)
         = Inl (Excepcion msg)
     \<and> errtxt = lit ''Lo siento, hubo un error procesando tu solicitud: '' @ msg
     \<and> procesar_update env tr g u = (tr', g', e) \<longrightarrow>
       response_gemini_consulta_documentos env q (str_join [10] (memoria g)) = errtxt
       \<and> memoria g' = deque_append (deque_append (memoria g) (lit ''Usuario: '' @ q))
                        (lit ''Asistente: '' @ errtxt)
       \<and> ((\<forall>p \<in> set (adecuar_respuesta errtxt). sendMessage env (chat_id g) p = None) \<longrightarrow>
            textos_enviados tr' = textos_enviados tr @ adecuar_respuesta errtxt
            \<and> (e = None \<or> (\<exists>a. response_openweb_lectura env errtxt = Some a
                                \<and> sendAudio env (chat_id g) a = e))))
   \<and> (length msg \<le> 3950 \<longrightarrow>
        adecuar_respuesta (lit ''Lo siento, hubo un error procesando tu solicitud: '' @ msg)
          = [lit ''Lo siento, hubo un error procesando tu solicitud: '' @ msg])"
proof (intro conjI impI)
  assume h: "message u = Some m \<and> obtener_pregunta env m = Inr (Some q)
     \<and> gemini_flash env (prompt_completo (detectar_idioma env q) (str_join [10] (memoria g)) q)
         = Inl (Excepcion msg)
     \<and> errtxt = lit ''Lo siento, hubo un error procesando tu solicitud: '' @ msg
     \<and> procesar_update env tr g u = (tr', g', e)"
  then have mu: "message u = Some m" and oq: "obtener_pregunta env m = Inr (Some q)"
    and pu: "procesar_update env tr g u = (tr', g', e)"
    by simp_all
  from h show r: "response_gemini_consulta_documentos env q (str_join [10] (memoria g)) = errtxt"
    by (simp add: respuesta_error)
  then have r': "respuesta_de env g q = errtxt" by (simp add: respuesta_de_def)
  from procesar_update_memoria [OF mu oq pu]
  show "memoria g' = deque_append (deque_append (memoria g) (lit ''Usuario: '' @ q))
                        (lit ''Asistente: '' @ errtxt)"
    by (simp add: r' memoria_tras_def)
  {
    assume ok: "\<forall>p \<in> set (adecuar_respuesta errtxt). sendMessage env (chat_id g) p = None"
    then have ok': "\<forall>p \<in> set (adecuar_respuesta (respuesta_de env g q)). sendMessage env (chat_id g) p = None"
      by (simp add: r')
    from procesar_update_entregado(1) [OF mu oq ok' pu]
    show "textos_enviados tr' = textos_enviados tr @ adecuar_respuesta errtxt"
      by (simp add: r')
    from procesar_update_entregado(2) [OF mu oq ok' pu]
    show "e = None \<or> (\<exists>a. response_openweb_lectura env errtxt = Some a
                                \<and> sendAudio env (chat_id g) a = e)"
      by (auto simp add: r' enviar_audio_def split: option.splits if_splits)
  }
next
  assume "length msg \<le> 3950"
  then show "adecuar_respuesta (lit ''Lo siento, hubo un error procesando tu solicitud: '' @ msg)
          = [lit ''Lo siento, hubo un error procesando tu solicitud: '' @ msg]"
    by (intro adecuar_respuesta_corta) (simp add: length_prefijo_error)
qed

text \<open>
  The generation fails with the message "503 UNAVAILABLE".
\<close>

theorem procesar_update_error_generacion_witness:
  "textos_enviados (fst (procesar_update entorno_caido [] gestor_42 update_hola))
     = [lit ''Lo siento, hubo un error procesando tu solicitud: 503 UNAVAILABLE'']
   \<and> memoria (fst (snd (procesar_update entorno_caido [] gestor_42 update_hola)))
     = [lit ''Usuario: hola'',
        lit ''Asistente: Lo siento, hubo un error procesando tu solicitud: 503 UNAVAILABLE'']
   \<and> snd (snd (procesar_update entorno_caido [] gestor_42 update_hola)) = None"
proof -
  let ?m = "\<lparr>msg_chat_id = 42, msg_text = Some (lit ''hola''), msg_audio = None, msg_voice = None\<rparr>"
  let ?res = "procesar_update entorno_caido [] gestor_42 update_hola"
  let ?msg = "lit ''503 UNAVAILABLE''"
  let ?errtxt = "lit ''Lo siento, hubo un error procesando tu solicitud: '' @ ?msg"
  have pre: "message update_hola = Some ?m \<and> obtener_pregunta entorno_caido ?m = Inr (Some (lit ''hola''))
      \<and> gemini_flash entorno_caido
            (prompt_completo (detectar_idioma entorno_caido (lit ''hola''))
               (str_join [10] (memoria gestor_42)) (lit ''hola''))
          = Inl (Excepcion ?msg)
      \<and> ?errtxt = lit ''Lo siento, hubo un error procesando tu solicitud: '' @ ?msg
      \<and> ?res = (fst ?res, fst (snd ?res), snd (snd ?res))"
    by (simp add: update_hola_def obtener_pregunta_def entorno_caido_def lit_def)
  have corto: "length ?msg \<le> 3950"
    by (simp add: lit_def)
  have env: "\<forall>p \<in> set (adecuar_respuesta ?errtxt). sendMessage entorno_caido (chat_id gestor_42) p = None"
    by (simp add: entorno_caido_def)
  have sin_audio: "response_openweb_lectura entorno_caido ?errtxt = None"
    by (simp add: response_openweb_lectura_def entorno_caido_def Let_def)
  note t = procesar_update_error_generacion [where u = update_hola and m = ?m and env = entorno_caido
      and q = "lit ''hola''" and g = gestor_42 and msg = ?msg and errtxt = ?errtxt and tr = "[]"
      and tr' = "fst ?res" and g' = "fst (snd ?res)" and e = "snd (snd ?res)"]
  from t pre env corto sin_audio
  have "textos_enviados (fst ?res) = textos_enviados [] @ [?errtxt]"
    and "memoria (fst (snd ?res)) = deque_append (deque_append (memoria gestor_42) (lit ''Usuario: '' @ lit ''hola''))
                        (lit ''Asistente: '' @ ?errtxt)"
    and "snd (snd ?res) = None"
    by auto
  then show ?thesis
    by (simp add: gestor_42_eq lit_def deque_append_def maxlen_def)
qed

text \<open>
  Claim C6 as stated (exactly one text chunk) fails when the message of the exception has
  3951 characters: the error text has 4001 characters and is sent as two chunks.
\<close>

theorem procesar_update_error_largo_counterexample:
  "length (textos_enviados (fst (procesar_update entorno_error_largo [] gestor_42 update_hola))) = 2"
proof -
  let ?m = "\<lparr>msg_chat_id = 42, msg_text = Some (lit ''hola''), msg_audio = None, msg_voice = None\<rparr>"
  let ?res = "procesar_update entorno_error_largo [] gestor_42 update_hola"
  let ?errtxt = "lit ''Lo siento, hubo un error procesando tu solicitud: '' @ mensaje_largo"
  have mu: "message update_hola = Some ?m"
    by (simp add: update_hola_def)
  have oq: "obtener_pregunta entorno_error_largo ?m = Inr (Some (lit ''hola''))"
    by (simp add: obtener_pregunta_def lit_def)
  have r: "respuesta_de entorno_error_largo gestor_42 (lit ''hola'') = ?errtxt"
    unfolding respuesta_de_def
    by (rule respuesta_error) (simp add: entorno_error_largo_def entorno_caido_def)
  have ok: "\<forall>p \<in> set (adecuar_respuesta (respuesta_de entorno_error_largo gestor_42 (lit ''hola''))).
              sendMessage entorno_error_largo (chat_id gestor_42) p = None"
    by (simp add: entorno_error_largo_def entorno_caido_def)
  have pu: "?res = (fst ?res, fst (snd ?res), snd (snd ?res))"
    by simp
  have len: "length ?errtxt = 4001"
    by (simp only: length_append length_prefijo_error mensaje_largo_def length_replicate)
  have ne: "?errtxt \<noteq> []"
    using len by auto
  from procesar_update_entregado(1) [OF mu oq ok pu]
  have "textos_enviados (fst ?res) = adecuar_respuesta ?errtxt"
    by (simp add: r)
  then have "length (textos_enviados (fst ?res)) = (length ?errtxt + 3999) div 4000"
    using ne by (simp only: length_adecuar_respuesta if_False)
  with len show ?thesis by simp
qed



lemma length_memoria_cargar_historial:
  "length (memoria g) \<le> maxlen \<Longrightarrow> length (memoria (cargar_historial fs g)) \<le> maxlen"
  by (simp add: cargar_historial_def length_foldl_deque_append split: option.splits)

lemma length_memoria_GestorChat_init: "length (memoria (GestorChat_init fs cid ahora)) \<le> maxlen"
  unfolding GestorChat_init_def by (rule length_memoria_cargar_historial) simp

text \<open>
  Claim C4. A new worker has at most 6 lines of history, and every operation of a worker
  with at most 6 lines leaves at most 6 lines; so does every run. Appending a line to a
  history of 6 lines drops exactly the oldest one and keeps the others in order; with
  fewer than 6 lines nothing is dropped.
\<close>

theorem memoria_acotada:
  "length (memoria (GestorChat_init fs cid ahora)) \<le> 6
   \<and> (length (memoria g) \<le> 6 \<longrightarrow>
        length (memoria (cargar_historial fs g)) \<le> 6
        \<and> length (memoria (agregar_mensaje g u ahora)) \<le> 6
        \<and> length (memoria (fst (snd (procesar_update env tr g u)))) \<le> 6
        \<and> length (memoria (snd (procesar_cola_iteracion env ahora (tr, g)))) \<le> 6
        \<and> length (memoria (snd (detener fs g))) \<le> 6
        \<and> length (memoria (snd (snd (ejecutar env (fs, tr, g) acciones)))) \<le> 6)
   \<and> (length d \<le> 6 \<longrightarrow> length (deque_append d x) \<le> 6)
   \<and> (length d = 6 \<longrightarrow> deque_append d x = tl d @ [x])
   \<and> (length d < 6 \<longrightarrow> deque_append d x = d @ [x])"
proof (intro conjI impI)
  show "length (memoria (GestorChat_init fs cid ahora)) \<le> 6"
    using length_memoria_GestorChat_init [of fs cid ahora] by (simp add: maxlen_def)
next
  assume "length (memoria g) \<le> 6"
  then have g: "length (memoria g) \<le> maxlen" by (simp add: maxlen_def)
  from length_memoria_cargar_historial [OF g]
  show "length (memoria (cargar_historial fs g)) \<le> 6" by (simp add: maxlen_def)
  from g show "length (memoria (agregar_mensaje g u ahora)) \<le> 6"
    by (simp add: agregar_mensaje_def maxlen_def)
  from g show "length (memoria (snd (detener fs g))) \<le> 6"
    by (simp add: detener_def Let_def maxlen_def)
  have "procesar_update env tr g u
      = (fst (procesar_update env tr g u), fst (snd (procesar_update env tr g u)),
         snd (snd (procesar_update env tr g u)))" by simp
  from procesar_update_campos [OF this] g
  show "length (memoria (fst (snd (procesar_update env tr g u)))) \<le> 6"
    by (simp add: maxlen_def)
  have "procesar_cola_iteracion env ahora (tr, g)
      = (fst (procesar_cola_iteracion env ahora (tr, g)), snd (procesar_cola_iteracion env ahora (tr, g)))"
    by simp
  from procesar_cola_iteracion_inv [OF this] g
  show "length (memoria (snd (procesar_cola_iteracion env ahora (tr, g)))) \<le> 6"
    by (simp add: maxlen_def)
  have "ejecutar env (fs, tr, g) acciones
      = (fst (ejecutar env (fs, tr, g) acciones), fst (snd (ejecutar env (fs, tr, g) acciones)),
         snd (snd (ejecutar env (fs, tr, g) acciones)))" by simp
  from ejecutar_inv [OF this] g
  show "length (memoria (snd (snd (ejecutar env (fs, tr, g) acciones)))) \<le> 6"
    by (simp add: maxlen_def)
next
  assume "length d \<le> 6"
  then show "length (deque_append d x) \<le> 6"
    using length_deque_append [of d x] by (simp add: maxlen_def)
next
  assume "length d = 6"
  then show "deque_append d x = tl d @ [x]"
    by (intro deque_append_lleno) (simp add: maxlen_def)
next
  assume "length d < 6"
  then show "deque_append d x = d @ [x]"
    by (intro deque_append_no_lleno) (simp add: maxlen_def)
qed

text \<open>
  A worker with a full history.
\<close>

theorem memoria_acotada_witness:
  "length (memoria (fst (snd (procesar_update entorno_hola [] gestor_lleno update_hola)))) \<le> 6
   \<and> length (memoria (snd (snd (ejecutar entorno_hola (Map.empty, [], gestor_lleno) acciones_42)))) \<le> 6
   \<and> deque_append (memoria gestor_lleno) (lit ''Usuario: hola'')
       = [lit ''Asistente: 1'', lit ''Usuario: dos'', lit ''Asistente: 2'',
          lit ''Usuario: tres'', lit ''Asistente: 3'', lit ''Usuario: hola'']
   \<and> deque_append (memoria gestor_42) (lit ''Usuario: hola'') = [lit ''Usuario: hola'']"
proof -
  have l: "length (memoria gestor_lleno) \<le> 6" "length (memoria gestor_lleno) = 6"
    "length (memoria gestor_42) < 6"
    by (simp_all add: gestor_lleno_def gestor_42_eq)
  note t = memoria_acotada [where g = gestor_lleno and env = entorno_hola and tr = "[]"
      and u = update_hola and fs = Map.empty and acciones = acciones_42
      and d = "memoria gestor_lleno" and x = "lit ''Usuario: hola''"]
  note t' = memoria_acotada [where d = "memoria gestor_42" and x = "lit ''Usuario: hola''"]
  from t l(1,2)
  have "length (memoria (fst (snd (procesar_update entorno_hola [] gestor_lleno update_hola)))) \<le> 6"
    and "length (memoria (snd (snd (ejecutar entorno_hola (Map.empty, [], gestor_lleno) acciones_42)))) \<le> 6"
    and "deque_append (memoria gestor_lleno) (lit ''Usuario: hola'')
           = tl (memoria gestor_lleno) @ [lit ''Usuario: hola'']"
    by blast+
  moreover from t' l(3)
  have "deque_append (memoria gestor_42) (lit ''Usuario: hola'') = memoria gestor_42 @ [lit ''Usuario: hola'']"
    by blast
  ultimately show ?thesis
    by (simp add: gestor_lleno_def gestor_42_eq)
qed

lemma detener_eq:
  "detener fs g = (fs(chat_id g \<mapsto> str_join [10] (memoria g)), g\<lparr>activo := False\<rparr>)"
  by (simp add: detener_def guardar_historial_def Let_def)

text \<open>
  Claim C9. \<open>detener\<close> returns the worker with \<open>activo\<close> false and nothing else changed, and the
  files as \<open>guardar_historial\<close> leaves them when called on the worker whose flag is already
  false: the history the worker has at that moment, joined by line feeds, in the file of
  its chat and all other files as they were. This holds of every worker, whatever its
  thread is doing: the save is part of \<open>detener\<close> and needs no iteration of the loop. And
  no action of a run other than a stop writes a file: the loop never saves. (An update
  that the thread has already taken from the queue when \<open>detener\<close> is called is still
  processed afterwards; its lines are not in what was saved.)
\<close>

theorem detener_persistente:
  "(detener fs g = (fs', g') \<longrightarrow>
      g' = g\<lparr>activo := False\<rparr>
      \<and> fs' = guardar_historial fs g'
      \<and> fs' (chat_id g) = Some (str_join [10] (memoria g))
      \<and> (\<forall>c. c \<noteq> chat_id g \<longrightarrow> fs' c = fs c))
   \<and> (Parar \<notin> set acciones \<longrightarrow> fst (ejecutar env (fs, tr, g) acciones) = fs)"
proof (intro conjI impI allI)
  assume d: "detener fs g = (fs', g')"
  then show g': "g' = g\<lparr>activo := False\<rparr>"
    and "fs' = guardar_historial fs g'"
    and "fs' (chat_id g) = Some (str_join [10] (memoria g))"
    by (auto simp add: detener_eq guardar_historial_def)
  {
    fix c assume "c \<noteq> chat_id g"
    with d show "fs' c = fs c" by (auto simp add: detener_eq)
  }
next
  assume "Parar \<notin> set acciones"
  then show "fst (ejecutar env (fs, tr, g) acciones) = fs"
    by (rule ejecutar_sin_parar)
qed

text \<open>
  Stopping the worker of the end-to-end scenario writes its two lines; and a run in which
  the fresh worker of chat 42 processes an update, with no stop, leaves chat 42 without file.
\<close>

theorem detener_persistente_witness:
  "snd (detener Map.empty gestor_hablado) = gestor_hablado\<lparr>activo := False\<rparr>
   \<and> fst (detener Map.empty gestor_hablado) 42
       = Some (lit ''Usuario: hola'' @ [10] @ lit ''Asistente: '' @ [161] @ lit ''Hola!'')
   \<and> fst (detener Map.empty gestor_hablado) 7 = None
   \<and> fst (ejecutar entorno_hola (Map.empty, [], gestor_42)
            [Encolar update_hola 1, Iterar 2]) 42 = None"
proof -
  let ?d = "detener Map.empty gestor_hablado"
  let ?acc = "[Encolar update_hola 1, Iterar 2]"
  have d: "?d = (fst ?d, snd ?d)" by simp
  have acc: "Parar \<notin> set ?acc" by simp
  have otro: "(7::int) \<noteq> chat_id gestor_hablado"
    by (simp add: gestor_hablado_def gestor_42_eq)
  note t = detener_persistente [where fs = Map.empty and g = gestor_hablado and fs' = "fst ?d"
      and g' = "snd ?d"]
  note t' = detener_persistente [where fs = Map.empty and g = gestor_42 and env = entorno_hola
      and tr = "[]" and acciones = ?acc]
  from t d otro
  have "snd ?d = gestor_hablado\<lparr>activo := False\<rparr>"
    and "fst ?d (chat_id gestor_hablado) = Some (str_join [10] (memoria gestor_hablado))"
    and "fst ?d 7 = Map.empty 7"
    by blast+
  moreover from t' acc
  have "fst (ejecutar entorno_hola (Map.empty, [], gestor_42) ?acc) = Map.empty"
    by blast
  ultimately show ?thesis
    by (simp add: gestor_hablado_def gestor_42_eq)
qed

section \<open>Properties of the inactivity monitor\<close>

lemma campo_list_update:
  assumes "f ((objs ! r)\<lparr>activo := False\<rparr>) = f (objs ! r)"
  shows "f (objs[r := (objs ! r)\<lparr>activo := False\<rparr>] ! j) = f (objs ! j)"
proof (cases "r < length objs \<and> j = r")
  case True
  with assms show ?thesis by simp
next
  case False
  then show ?thesis
    by (cases "r < length objs") (auto simp add: nth_list_update list_update_beyond)
qed

lemma inactivo_list_update:
  "inactivo ahora (objs[r := (objs ! r)\<lparr>activo := False\<rparr>] ! j) = inactivo ahora (objs ! j)"
  by (rule campo_list_update) (simp add: inactivo_def)

lemma monitor_bucle_paso_inactivo:
  "inactivo ahora (objs ! r) \<Longrightarrow>
   monitor_bucle ahora ((cid, r) # items) (objs, fs, eliminar) =
     monitor_bucle ahora items
       (objs[r := (objs ! r)\<lparr>activo := False\<rparr>],
        fs(chat_id (objs ! r) \<mapsto> str_join [10] (memoria (objs ! r))), eliminar @ [cid])"
  by (simp add: inactivo_def detener_def guardar_historial_def Let_def)

lemma monitor_bucle_paso_activo:
  "\<not> inactivo ahora (objs ! r) \<Longrightarrow>
   monitor_bucle ahora ((cid, r) # items) (objs, fs, eliminar) =
     monitor_bucle ahora items (objs, fs, eliminar)"
  by (auto simp add: inactivo_def Let_def)

lemma monitor_bucle_eliminar:
  "monitor_bucle ahora items (objs, fs, eliminar) = (objs', fs', eliminar') \<Longrightarrow>
   eliminar' = eliminar @ map fst (filter (\<lambda>kv. inactivo ahora (objs ! snd kv)) items)"
proof (induction items arbitrary: objs fs eliminar)
  case Nil
  then show ?case by simp
next
  case (Cons kv items)
  obtain cid r where kv: "kv = (cid, r)" by (cases kv)
  show ?case
  proof (cases "inactivo ahora (objs ! r)")
    case True
    from Cons.prems have "monitor_bucle ahora items
       (objs[r := (objs ! r)\<lparr>activo := False\<rparr>],
        fs(chat_id (objs ! r) \<mapsto> str_join [10] (memoria (objs ! r))), eliminar @ [cid])
       = (objs', fs', eliminar')"
      unfolding kv monitor_bucle_paso_inactivo [OF True] .
    from Cons.IH [OF this] True show ?thesis
      by (simp add: kv inactivo_list_update)
  next
    case False
    from Cons.prems have "monitor_bucle ahora items (objs, fs, eliminar) = (objs', fs', eliminar')"
      unfolding kv monitor_bucle_paso_activo [OF False] .
    from Cons.IH [OF this] False show ?thesis
      by (simp add: kv)
  qed
qed

lemma monitor_bucle_objetos:
  "monitor_bucle ahora items (objs, fs, eliminar) = (objs', fs', eliminar') \<Longrightarrow>
   length objs' = length objs
   \<and> (\<forall>i < length objs. objs' ! i =
         (if i \<in> snd ` set (filter (\<lambda>kv. inactivo ahora (objs ! snd kv)) items)
          then (objs ! i)\<lparr>activo := False\<rparr> else objs ! i))"
proof (induction items arbitrary: objs fs eliminar)
  case Nil
  then show ?case by simp
next
  case (Cons kv items)
  obtain cid r where kv: "kv = (cid, r)" by (cases kv)
  show ?case
  proof (cases "inactivo ahora (objs ! r)")
    case True
    let ?objs1 = "objs[r := (objs ! r)\<lparr>activo := False\<rparr>]"
    from Cons.prems have "monitor_bucle ahora items
       (?objs1, fs(chat_id (objs ! r) \<mapsto> str_join [10] (memoria (objs ! r))), eliminar @ [cid])
       = (objs', fs', eliminar')"
      unfolding kv monitor_bucle_paso_inactivo [OF True] .
    from Cons.IH [OF this]
    have len: "length objs' = length objs"
      and nth: "\<forall>i < length objs. objs' ! i =
         (if i \<in> snd ` set (filter (\<lambda>kv. inactivo ahora (objs ! snd kv)) items)
          then (?objs1 ! i)\<lparr>activo := False\<rparr> else ?objs1 ! i)"
      by (simp_all add: inactivo_list_update)
    have "\<forall>i < length objs. objs' ! i =
         (if i \<in> snd ` set (filter (\<lambda>kv. inactivo ahora (objs ! snd kv)) (kv # items))
          then (objs ! i)\<lparr>activo := False\<rparr> else objs ! i)"
    proof (intro allI impI)
      fix i assume i: "i < length objs"
      show "objs' ! i =
         (if i \<in> snd ` set (filter (\<lambda>kv. inactivo ahora (objs ! snd kv)) (kv # items))
          then (objs ! i)\<lparr>activo := False\<rparr> else objs ! i)"
      proof (cases "i = r")
        case True
        with i nth show ?thesis
          using \<open>inactivo ahora (objs ! r)\<close> by (simp add: kv)
      next
        case False
        with i nth show ?thesis
          using \<open>inactivo ahora (objs ! r)\<close> by (simp add: kv)
      qed
    qed
    with len show ?thesis by simp
  next
    case False
    from Cons.prems have "monitor_bucle ahora items (objs, fs, eliminar) = (objs', fs', eliminar')"
      unfolding kv monitor_bucle_paso_activo [OF False] .
    from Cons.IH [OF this] False show ?thesis
      by (simp add: kv)
  qed
qed

lemma monitor_bucle_ficheros:
  "monitor_bucle ahora items (objs, fs, eliminar) = (objs', fs', eliminar') \<Longrightarrow>
   distinct (map fst items) \<Longrightarrow>
   list_all (\<lambda>kv. snd kv < length objs \<and> chat_id (objs ! snd kv) = fst kv) items \<Longrightarrow>
   fs' c = (case map_of (filter (\<lambda>kv. inactivo ahora (objs ! snd kv)) items) c of
              None \<Rightarrow> fs c
            | Some r \<Rightarrow> Some (str_join [10] (memoria (objs ! r))))"
proof (induction items arbitrary: objs fs eliminar)
  case Nil
  then show ?case by simp
next
  case (Cons kv items)
  obtain cid r where kv: "kv = (cid, r)" by (cases kv)
  from Cons.prems(2) have dist: "distinct (map fst items)" and fresh: "cid \<notin> fst ` set items"
    by (simp_all add: kv)
  from Cons.prems(3) have r: "r < length objs" "chat_id (objs ! r) = cid"
    and rest: "list_all (\<lambda>kv. snd kv < length objs \<and> chat_id (objs ! snd kv) = fst kv) items"
    by (simp_all add: kv)
  show ?case
  proof (cases "inactivo ahora (objs ! r)")
    case True
    let ?objs1 = "objs[r := (objs ! r)\<lparr>activo := False\<rparr>]"
    let ?fs1 = "fs(cid \<mapsto> str_join [10] (memoria (objs ! r)))"
    from Cons.prems(1) have run: "monitor_bucle ahora items (?objs1, ?fs1, eliminar @ [cid])
       = (objs', fs', eliminar')"
      unfolding kv monitor_bucle_paso_inactivo [OF True] r(2) .
    have cid1: "\<And>j. chat_id (?objs1 ! j) = chat_id (objs ! j)"
      by (rule campo_list_update) simp
    have mem1: "\<And>j. memoria (?objs1 ! j) = memoria (objs ! j)"
      by (rule campo_list_update) simp
    from rest have rest1: "list_all (\<lambda>kv. snd kv < length ?objs1 \<and> chat_id (?objs1 ! snd kv) = fst kv) items"
      by (simp add: cid1)
    from Cons.IH [OF run dist rest1]
    have fs': "fs' c = (case map_of (filter (\<lambda>kv. inactivo ahora (objs ! snd kv)) items) c of
              None \<Rightarrow> ?fs1 c
            | Some r' \<Rightarrow> Some (str_join [10] (memoria (objs ! r'))))"
      by (simp add: inactivo_list_update mem1 split: option.splits)
    show ?thesis
    proof (cases "c = cid")
      case True
      with fresh have "map_of (filter (\<lambda>kv. inactivo ahora (objs ! snd kv)) items) c = None"
        by (auto simp add: map_of_eq_None_iff)
      with fs' True \<open>inactivo ahora (objs ! r)\<close> show ?thesis by (simp add: kv)
    next
      case False
      with fs' \<open>inactivo ahora (objs ! r)\<close> show ?thesis
        by (simp add: kv split: option.splits)
    qed
  next
    case False
    from Cons.prems(1) have "monitor_bucle ahora items (objs, fs, eliminar) = (objs', fs', eliminar')"
      unfolding kv monitor_bucle_paso_activo [OF False] .
    from Cons.IH [OF this dist rest] False show ?thesis
      by (simp add: kv)
  qed
qed

lemma map_of_dict_del: "map_of (dict_del k d) c = (if c = k then None else map_of d c)"
  by (induction d) (auto simp add: dict_del_def)

lemma map_of_monitor_borrar:
  "map_of (monitor_borrar eliminar d) c = (if c \<in> set eliminar then None else map_of d c)"
  by (induction eliminar arbitrary: d) (auto simp add: map_of_dict_del)


lemma map_of_filter_distinct:
  "distinct (map fst d) \<Longrightarrow>
   map_of (filter P d) c =
     (case map_of d c of None \<Rightarrow> None | Some r \<Rightarrow> if P (c, r) then Some r else None)"
proof (induction d)
  case Nil
  then show ?case by simp
next
  case (Cons kv d)
  obtain k v where kv: "kv = (k, v)" by (cases kv)
  from Cons.prems have "k \<notin> fst ` set d" and "distinct (map fst d)"
    by (simp_all add: kv)
  then have "map_of d k = None" "map_of (filter P d) k = None"
    by (auto simp add: map_of_eq_None_iff)
  with Cons.IH [OF \<open>distinct (map fst d)\<close>] show ?case
    by (simp add: kv)
qed

lemma set_eliminar:
  assumes "distinct (map fst d)" "map_of d cid = Some r"
  shows "cid \<in> fst ` set (filter P d) \<longleftrightarrow> P (cid, r)"
proof -
  have "cid \<in> fst ` set (filter P d) \<longleftrightarrow> map_of (filter P d) cid \<noteq> None"
    by (simp add: map_of_eq_None_iff)
  also have "\<dots> \<longleftrightarrow> P (cid, r)"
    using assms by (simp add: map_of_filter_distinct)
  finally show ?thesis .
qed

lemma bien_formado_entrada:
  assumes "bien_formado s" "map_of (chats_activos s) cid = Some r"
  shows "r < length (objetos s)" "chat_id (objetos s ! r) = cid" "(cid, r) \<in> set (chats_activos s)"
proof -
  from assms(2) show in_d: "(cid, r) \<in> set (chats_activos s)"
    by (rule map_of_SomeD)
  with assms(1) show "r < length (objetos s)" "chat_id (objetos s ! r) = cid"
    by (auto simp add: bien_formado_def list_all_iff)
qed

lemma monitor_borrar_filter:
  "monitor_borrar eliminar d = filter (\<lambda>kv. fst kv \<notin> set eliminar) d"
proof (induction eliminar arbitrary: d)
  case Nil
  then show ?case by simp
next
  case (Cons k eliminar)
  have "filter (\<lambda>kv. fst kv \<notin> set eliminar) (filter (\<lambda>kv. fst kv \<noteq> k) d)
        = filter (\<lambda>kv. fst kv \<notin> set (k # eliminar)) d"
    by (induction d) auto
  with Cons show ?case by (simp add: dict_del_def)
qed

lemma monitor_inactividad_ciclo_eq:
  assumes "monitor_bucle ahora (chats_activos s) (objetos s, ficheros s, []) = (objs, fs, eliminar)"
  shows "monitor_inactividad_ciclo ahora s
    = s\<lparr>objetos := objs, ficheros := fs,
        chats_activos := monitor_borrar eliminar (chats_activos s)\<rparr>"
  by (simp add: monitor_inactividad_ciclo_def assms)

lemma bien_formado_monitor_inactividad_ciclo:
  assumes "bien_formado s"
  shows "bien_formado (monitor_inactividad_ciclo ahora s)"
proof -
  obtain objs fs eliminar where
    run: "monitor_bucle ahora (chats_activos s) (objetos s, ficheros s, []) = (objs, fs, eliminar)"
    by (cases "monitor_bucle ahora (chats_activos s) (objetos s, ficheros s, [])") blast
  from monitor_bucle_objetos [OF run]
  have len: "length objs = length (objetos s)"
    and cid: "\<forall>i < length (objetos s). chat_id (objs ! i) = chat_id (objetos s ! i)"
    by simp_all
  let ?d = "filter (\<lambda>kv. fst kv \<notin> set eliminar) (chats_activos s)"
  from assms have "distinct (map fst ?d)" "distinct (map snd ?d)"
    by (simp_all add: bien_formado_def distinct_map_filter)
  moreover from assms len cid
  have "list_all (\<lambda>kv. snd kv < length objs \<and> chat_id (objs ! snd kv) = fst kv) ?d"
    by (auto simp add: bien_formado_def list_all_iff)
  ultimately show ?thesis
    by (simp add: monitor_inactividad_ciclo_eq [OF run] monitor_borrar_filter bien_formado_def)
qed

text \<open>
  Claim C3. In a cycle of the monitor on a well-formed dictionary, the worker registered
  for a chat is put on the list \<open>eliminar\<close> exactly when \<open>ahora - ultima_actividad\<close> exceeds 300
  and its queue is empty; a worker with a non-empty queue is never on it. For a worker on
  the list, the first loop, which leaves the dictionary as it is, has stopped it (its
  \<open>activo\<close> is false and nothing else changed) and has written its history to its file;
  the second loop then removes its entry. A worker not on the list, its file and its entry
  are as before. The cycle ends with the objects and files of the first loop and the
  dictionary without the entries of the list, which is again well formed.
\<close>

theorem monitor_inactividad_ciclo_correcto:
  "bien_formado s
   \<and> monitor_bucle ahora (chats_activos s) (objetos s, ficheros s, []) = (objs, fs, eliminar)
   \<and> map_of (chats_activos s) cid = Some r \<longrightarrow>
     (cid \<in> set eliminar \<longleftrightarrow>
        ahora - ultima_actividad (objetos s ! r) > 300 \<and> cola_mensajes (objetos s ! r) = [])
     \<and> (cola_mensajes (objetos s ! r) \<noteq> [] \<longrightarrow> cid \<notin> set eliminar)
     \<and> (cid \<in> set eliminar \<longrightarrow>
          objs ! r = (objetos s ! r)\<lparr>activo := False\<rparr>
          \<and> fs cid = Some (str_join [10] (memoria (objetos s ! r)))
          \<and> map_of (chats_activos (monitor_inactividad_ciclo ahora s)) cid = None)
     \<and> (cid \<notin> set eliminar \<longrightarrow>
          objs ! r = objetos s ! r \<and> fs cid = ficheros s cid
          \<and> map_of (chats_activos (monitor_inactividad_ciclo ahora s)) cid = Some r)
     \<and> objetos (monitor_inactividad_ciclo ahora s) = objs
     \<and> ficheros (monitor_inactividad_ciclo ahora s) = fs
     \<and> chats_activos (monitor_inactividad_ciclo ahora s)
         = monitor_borrar eliminar (chats_activos s)
     \<and> bien_formado (monitor_inactividad_ciclo ahora s)"
proof (intro impI)
  let ?d = "chats_activos s"
  let ?P = "\<lambda>kv. inactivo ahora (objetos s ! snd kv)"
  assume h: "bien_formado s
   \<and> monitor_bucle ahora (chats_activos s) (objetos s, ficheros s, []) = (objs, fs, eliminar)
   \<and> map_of (chats_activos s) cid = Some r"
  then have bf: "bien_formado s"
    and run: "monitor_bucle ahora ?d (objetos s, ficheros s, []) = (objs, fs, eliminar)"
    and reg: "map_of ?d cid = Some r"
    by simp_all
  from bf have dk: "distinct (map fst ?d)" and dv: "distinct (map snd ?d)"
    and wf: "list_all (\<lambda>kv. snd kv < length (objetos s) \<and> chat_id (objetos s ! snd kv) = fst kv) ?d"
    by (simp_all add: bien_formado_def)
  note e = bien_formado_entrada [OF bf reg]
  from monitor_bucle_eliminar [OF run] have el: "eliminar = map fst (filter ?P ?d)"
    by simp
  have in_el: "cid \<in> set eliminar \<longleftrightarrow> inactivo ahora (objetos s ! r)"
    unfolding el using set_eliminar [OF dk reg, of ?P] by simp
  have in_snd: "r \<in> snd ` set (filter ?P ?d) \<longleftrightarrow> inactivo ahora (objetos s ! r)"
    using e(3) by force
  from monitor_bucle_objetos [OF run] e(1) in_snd in_el
  have obj: "objs ! r = (if cid \<in> set eliminar then (objetos s ! r)\<lparr>activo := False\<rparr> else objetos s ! r)"
    by simp
  from monitor_bucle_ficheros [OF run dk wf, of cid] in_el
  have fil: "fs cid = (if cid \<in> set eliminar then Some (str_join [10] (memoria (objetos s ! r)))
                       else ficheros s cid)"
    by (simp add: map_of_filter_distinct [OF dk] reg)
  have reg': "map_of (chats_activos (monitor_inactividad_ciclo ahora s)) cid
               = (if cid \<in> set eliminar then None else Some r)"
    by (simp add: monitor_inactividad_ciclo_eq [OF run] map_of_monitor_borrar reg)
  show "(cid \<in> set eliminar \<longleftrightarrow>
        ahora - ultima_actividad (objetos s ! r) > 300 \<and> cola_mensajes (objetos s ! r) = [])
     \<and> (cola_mensajes (objetos s ! r) \<noteq> [] \<longrightarrow> cid \<notin> set eliminar)
     \<and> (cid \<in> set eliminar \<longrightarrow>
          objs ! r = (objetos s ! r)\<lparr>activo := False\<rparr>
          \<and> fs cid = Some (str_join [10] (memoria (objetos s ! r)))
          \<and> map_of (chats_activos (monitor_inactividad_ciclo ahora s)) cid = None)
     \<and> (cid \<notin> set eliminar \<longrightarrow>
          objs ! r = objetos s ! r \<and> fs cid = ficheros s cid
          \<and> map_of (chats_activos (monitor_inactividad_ciclo ahora s)) cid = Some r)
     \<and> objetos (monitor_inactividad_ciclo ahora s) = objs
     \<and> ficheros (monitor_inactividad_ciclo ahora s) = fs
     \<and> chats_activos (monitor_inactividad_ciclo ahora s)
         = monitor_borrar eliminar (chats_activos s)
     \<and> bien_formado (monitor_inactividad_ciclo ahora s)"
    using in_el obj fil reg' bien_formado_monitor_inactividad_ciclo [OF bf, of ahora]
    by (simp add: monitor_inactividad_ciclo_eq [OF run] inactivo_def TIEMPO_INACTIVIDAD_MAX_def)
qed


text \<open>
  At time 301: the worker of chat 42, idle since 0 with an empty queue, is stopped, saved
  and removed; the worker of chat 7, idle since 0 with a queued update, and the worker of
  chat 9, idle since 1 with an empty queue, stay.
\<close>

theorem monitor_inactividad_ciclo_correcto_witness:
  "map_of (chats_activos (monitor_inactividad_ciclo 301 sistema_tres)) 42 = None
   \<and> fst (monitor_bucle 301 (chats_activos sistema_tres)
            (objetos sistema_tres, ficheros sistema_tres, [])) ! 0
       = gestor_hablado\<lparr>activo := False\<rparr>
   \<and> ficheros (monitor_inactividad_ciclo 301 sistema_tres) 42
       = Some (lit ''Usuario: hola'' @ [10] @ lit ''Asistente: '' @ [161] @ lit ''Hola!'')
   \<and> map_of (chats_activos (monitor_inactividad_ciclo 301 sistema_tres)) 7 = Some 1
   \<and> objetos (monitor_inactividad_ciclo 301 sistema_tres) ! 1 = objetos sistema_tres ! 1
   \<and> map_of (chats_activos (monitor_inactividad_ciclo 301 sistema_tres)) 9 = Some 2"
proof -
  let ?R = "monitor_bucle 301 (chats_activos sistema_tres)
              (objetos sistema_tres, ficheros sistema_tres, [])"
  have bf: "bien_formado sistema_tres"
    by (simp add: bien_formado_def sistema_tres_def gestor_hablado_def gestor_42_eq)
  have run: "?R = (fst ?R, fst (snd ?R), snd (snd ?R))" by simp
  have reg: "map_of (chats_activos sistema_tres) 42 = Some 0"
    "map_of (chats_activos sistema_tres) 7 = Some 1"
    "map_of (chats_activos sistema_tres) 9 = Some 2"
    by (simp_all add: sistema_tres_def)
  have o0: "301 - ultima_actividad (objetos sistema_tres ! 0) > 300
      \<and> cola_mensajes (objetos sistema_tres ! 0) = []"
    and o1: "cola_mensajes (objetos sistema_tres ! 1) \<noteq> []"
    and o2: "\<not> 301 - ultima_actividad (objetos sistema_tres ! 2) > 300"
    by (simp_all add: sistema_tres_def gestor_hablado_def gestor_42_eq)
  note t = monitor_inactividad_ciclo_correcto [where s = sistema_tres and ahora = 301
      and objs = "fst ?R" and fs = "fst (snd ?R)" and eliminar = "snd (snd ?R)"]
  from t [where cid = 42 and r = 0] bf run reg(1) o0
  have "map_of (chats_activos (monitor_inactividad_ciclo 301 sistema_tres)) 42 = None"
    and "fst ?R ! 0 = (objetos sistema_tres ! 0)\<lparr>activo := False\<rparr>"
    and "fst (snd ?R) 42 = Some (str_join [10] (memoria (objetos sistema_tres ! 0)))"
    and "ficheros (monitor_inactividad_ciclo 301 sistema_tres) = fst (snd ?R)"
    by blast+
  moreover from t [where cid = 7 and r = 1] bf run reg(2) o1
  have "map_of (chats_activos (monitor_inactividad_ciclo 301 sistema_tres)) 7 = Some 1"
    and "fst ?R ! 1 = objetos sistema_tres ! 1"
    and "objetos (monitor_inactividad_ciclo 301 sistema_tres) = fst ?R"
    by blast+
  moreover from t [where cid = 9 and r = 2] bf run reg(3) o2
  have "map_of (chats_activos (monitor_inactividad_ciclo 301 sistema_tres)) 9 = Some 2"
    by blast
  ultimately show ?thesis
    by (simp add: sistema_tres_def gestor_hablado_def gestor_42_eq)
qed

section \<open>Properties of the threads\<close>

lemma chat_id_GestorChat_init: "chat_id (GestorChat_init fs cid ahora) = cid"
  by (simp add: GestorChat_init_def cargar_historial_def split: option.splits)

lemma dict_set_ausente: "map_of d k = None \<Longrightarrow> dict_set k v d = d @ [(k, v)]"
  by (induction d) (auto split: if_splits)

lemma invariante_inicial: "invariante (inicial fs)"
  by (simp add: invariante_def inicial_def bien_formado_def registrados_def)

lemma fuera_si_libre:
  assumes "invariante c" "lock_chats c = None"
  shows "pc_principal c i = P_fuera" "pc_monitor c = Mo_fuera"
  using assms by (auto simp add: invariante_def)

lemma fuera_si_otro:
  assumes "invariante c" "pc_principal c i \<noteq> P_fuera"
  shows "j \<noteq> i \<Longrightarrow> pc_principal c j = P_fuera" "pc_monitor c = Mo_fuera"
proof -
  from assms have l: "lock_chats c = Some (Principal i)"
    by (simp add: invariante_def)
  from assms(1) have a: "pc_principal c j \<noteq> P_fuera \<longrightarrow> lock_chats c = Some (Principal j)"
    and m: "pc_monitor c \<noteq> Mo_fuera \<longrightarrow> lock_chats c = Some Monitor"
    by (simp_all add: invariante_def)
  from l a show "j \<noteq> i \<Longrightarrow> pc_principal c j = P_fuera" by auto
  from l m show "pc_monitor c = Mo_fuera" by auto
qed

lemma fuera_si_monitor:
  assumes "invariante c" "pc_monitor c \<noteq> Mo_fuera"
  shows "pc_principal c j = P_fuera"
proof -
  from assms have l: "lock_chats c = Some Monitor"
    by (simp add: invariante_def)
  from assms(1) have "pc_principal c j \<noteq> P_fuera \<longrightarrow> lock_chats c = Some (Principal j)"
    by (simp add: invariante_def)
  with l show ?thesis by auto
qed

lemma invarianteI:
  assumes "bien_formado (sistema c)"
    and "\<And>i. pc_principal c i \<noteq> P_fuera \<Longrightarrow> lock_chats c = Some (Principal i)"
    and "pc_monitor c \<noteq> Mo_fuera \<Longrightarrow> lock_chats c = Some Monitor"
    and "registrados (sistema c)"
    and "\<And>i cid u. pc_principal c i = P_crear cid u \<Longrightarrow>
           map_of (chats_activos (sistema c)) cid = None"
    and "\<And>eliminar cid r. pc_monitor c = Mo_borrar eliminar \<Longrightarrow> cid \<in> set eliminar \<Longrightarrow>
           map_of (chats_activos (sistema c)) cid = Some r \<Longrightarrow>
           \<not> activo (objetos (sistema c) ! r)"
  shows "invariante c"
  unfolding invariante_def using assms by blast

lemma invarianteD:
  assumes "invariante c"
  shows "bien_formado (sistema c)"
    and "\<And>i. pc_principal c i \<noteq> P_fuera \<Longrightarrow> lock_chats c = Some (Principal i)"
    and "pc_monitor c \<noteq> Mo_fuera \<Longrightarrow> lock_chats c = Some Monitor"
    and "registrados (sistema c)"
    and "\<And>i cid u. pc_principal c i = P_crear cid u \<Longrightarrow>
           map_of (chats_activos (sistema c)) cid = None"
    and "\<And>eliminar cid r. pc_monitor c = Mo_borrar eliminar \<Longrightarrow> cid \<in> set eliminar \<Longrightarrow>
           map_of (chats_activos (sistema c)) cid = Some r \<Longrightarrow>
           \<not> activo (objetos (sistema c) ! r)"
  using assms unfolding invariante_def by blast+

lemma invariante_principal_dentro:
  assumes inv: "invariante c" and pc: "pc_principal c i \<noteq> P_fuera"
    and c': "lock_chats c' = lock_chats c" "pc_principal c' = (pc_principal c)(i := p')"
      "pc_monitor c' = pc_monitor c"
    and bf: "bien_formado (sistema c')"
    and reg: "registrados (sistema c')"
    and crear: "\<And>cid u. p' = P_crear cid u \<Longrightarrow> map_of (chats_activos (sistema c')) cid = None"
  shows "invariante c'"
proof (rule invarianteI)
  show "bien_formado (sistema c')" by (rule bf)
  show "registrados (sistema c')" by (rule reg)
  from invarianteD(2) [OF inv pc] have l: "lock_chats c' = Some (Principal i)"
    by (simp add: c')
  fix j assume "pc_principal c' j \<noteq> P_fuera"
  with fuera_si_otro(1) [OF inv pc, of j] have "j = i"
    by (auto simp add: c' split: if_splits)
  with l show "lock_chats c' = Some (Principal j)" by simp
next
  assume "pc_monitor c' \<noteq> Mo_fuera"
  with fuera_si_otro(2) [OF inv pc] show "lock_chats c' = Some Monitor"
    by (simp add: c')
next
  fix j cid u assume j: "pc_principal c' j = P_crear cid u"
  with fuera_si_otro(1) [OF inv pc, of j] have "j = i"
    by (auto simp add: c' split: if_splits)
  with j have "p' = P_crear cid u" by (simp add: c')
  then show "map_of (chats_activos (sistema c')) cid = None" by (rule crear)
next
  fix eliminar cid r assume "pc_monitor c' = Mo_borrar eliminar"
  with fuera_si_otro(2) [OF inv pc] show "\<not> activo (objetos (sistema c') ! r)"
    by (simp add: c')
qed

lemma invariante_monitor_dentro:
  assumes inv: "invariante c" and pc: "pc_monitor c \<noteq> Mo_fuera"
    and c': "lock_chats c' = lock_chats c" "pc_principal c' = pc_principal c"
    and bf: "bien_formado (sistema c')"
    and reg: "registrados (sistema c')"
    and borrar: "\<And>eliminar cid r. pc_monitor c' = Mo_borrar eliminar \<Longrightarrow> cid \<in> set eliminar \<Longrightarrow>
           map_of (chats_activos (sistema c')) cid = Some r \<Longrightarrow>
           \<not> activo (objetos (sistema c') ! r)"
  shows "invariante c'"
proof (rule invarianteI)
  show "bien_formado (sistema c')" by (rule bf)
  show "registrados (sistema c')" by (rule reg)
  fix j assume "pc_principal c' j \<noteq> P_fuera"
  with fuera_si_monitor [OF inv pc, of j] show "lock_chats c' = Some (Principal j)"
    by (simp add: c')
next
  from invarianteD(3) [OF inv pc] show "lock_chats c' = Some Monitor"
    by (simp add: c')
next
  fix j cid u assume "pc_principal c' j = P_crear cid u"
  with fuera_si_monitor [OF inv pc, of j] show "map_of (chats_activos (sistema c')) cid = None"
    by (simp add: c')
next
  fix eliminar cid r
  assume "pc_monitor c' = Mo_borrar eliminar" "cid \<in> set eliminar"
    "map_of (chats_activos (sistema c')) cid = Some r"
  then show "\<not> activo (objetos (sistema c') ! r)" by (rule borrar)
qed

lemma invariante_fuera:
  assumes inv: "invariante c"
    and todos: "\<And>j. pc_principal c' j = P_fuera" "pc_monitor c' = Mo_fuera"
    and s: "sistema c' = sistema c"
  shows "invariante c'"
  using invarianteD(1,4) [OF inv] by (intro invarianteI) (simp_all add: todos s)

lemma sustituir_objetos:
  assumes bf: "bien_formado s" and reg: "registrados s"
    and len: "length objs = length (objetos s)"
    and campos: "\<And>i. i < length (objetos s) \<Longrightarrow>
        chat_id (objs ! i) = chat_id (objetos s ! i) \<and> (activo (objs ! i) \<longrightarrow> activo (objetos s ! i))"
    and s': "objetos s' = objs" "chats_activos s' = chats_activos s"
  shows "bien_formado s'" "registrados s'"
proof -
  from bf have "list_all (\<lambda>kv. snd kv < length (objetos s) \<and> chat_id (objetos s ! snd kv) = fst kv)
      (chats_activos s)"
    by (simp add: bien_formado_def)
  then have "list_all (\<lambda>kv. snd kv < length objs \<and> chat_id (objs ! snd kv) = fst kv) (chats_activos s)"
    using campos by (auto simp add: list_all_iff len)
  with bf show "bien_formado s'"
    by (simp add: bien_formado_def s')
  show "registrados s'"
    unfolding registrados_def s'
  proof (intro allI impI)
    fix r assume r: "r < length objs" and a: "activo (objs ! r)"
    from r len campos [of r] a have "activo (objetos s ! r)" "chat_id (objs ! r) = chat_id (objetos s ! r)"
      by simp_all
    with reg r len show "map_of (chats_activos s) (chat_id (objs ! r)) = Some r"
      by (simp add: registrados_def)
  qed
qed

lemma actualizar_objeto:
  assumes bf: "bien_formado s" and reg: "registrados s"
    and r: "r < length (objetos s)"
    and campos: "chat_id g' = chat_id (objetos s ! r)" "activo g' \<longrightarrow> activo (objetos s ! r)"
    and s': "objetos s' = (objetos s)[r := g']" "chats_activos s' = chats_activos s"
  shows "bien_formado s'" "registrados s'"
proof -
  have c: "\<And>i. i < length (objetos s) \<Longrightarrow>
        chat_id ((objetos s)[r := g'] ! i) = chat_id (objetos s ! i)
        \<and> (activo ((objetos s)[r := g'] ! i) \<longrightarrow> activo (objetos s ! i))"
  proof -
    fix i assume "i < length (objetos s)"
    with campos show "chat_id ((objetos s)[r := g'] ! i) = chat_id (objetos s ! i)
        \<and> (activo ((objetos s)[r := g'] ! i) \<longrightarrow> activo (objetos s ! i))"
      by (cases "i = r") simp_all
  qed
  show "bien_formado s'" "registrados s'"
    using sustituir_objetos [OF bf reg _ c s'] by simp_all
qed

lemma crear_gestor_invariante:
  assumes bf: "bien_formado s" and reg: "registrados s"
    and aus: "map_of (chats_activos s) cid = None"
  shows "bien_formado (crear_gestor ahora cid s)" "registrados (crear_gestor ahora cid s)"
proof -
  let ?n = "length (objetos s)"
  let ?g = "GestorChat_init (ficheros s) cid ahora"
  have eq: "crear_gestor ahora cid s
      = s\<lparr>objetos := objetos s @ [?g], chats_activos := chats_activos s @ [(cid, ?n)]\<rparr>"
    by (simp add: crear_gestor_def dict_set_ausente [OF aus])
  from bf have dk: "distinct (map fst (chats_activos s))" and dv: "distinct (map snd (chats_activos s))"
    and wf: "\<And>kv. kv \<in> set (chats_activos s) \<Longrightarrow>
          snd kv < ?n \<and> chat_id (objetos s ! snd kv) = fst kv"
    by (auto simp add: bien_formado_def list_all_iff)
  from aus have nk: "cid \<notin> fst ` set (chats_activos s)"
    by (simp add: map_of_eq_None_iff)
  have nv: "?n \<notin> snd ` set (chats_activos s)"
  proof
    assume "?n \<in> snd ` set (chats_activos s)"
    then obtain kv where "kv \<in> set (chats_activos s)" "snd kv = ?n" by auto
    with wf [of kv] show False by simp
  qed
  have la: "list_all (\<lambda>kv. snd kv < Suc ?n \<and> chat_id ((objetos s @ [?g]) ! snd kv) = fst kv)
      (chats_activos s)"
    unfolding list_all_iff
  proof
    fix kv assume "kv \<in> set (chats_activos s)"
    from wf [OF this] show "snd kv < Suc ?n \<and> chat_id ((objetos s @ [?g]) ! snd kv) = fst kv"
      by (simp add: nth_append)
  qed
  show "bien_formado (crear_gestor ahora cid s)"
    unfolding eq bien_formado_def
    using dk dv nk nv la
    by (simp add: chat_id_GestorChat_init)
  show "registrados (crear_gestor ahora cid s)"
    unfolding eq registrados_def
  proof (intro allI impI)
    fix r
    assume r: "r < length (objetos (s\<lparr>objetos := objetos s @ [?g], chats_activos := chats_activos s @ [(cid, ?n)]\<rparr>))"
      and a: "activo (objetos (s\<lparr>objetos := objetos s @ [?g], chats_activos := chats_activos s @ [(cid, ?n)]\<rparr>) ! r)"
    show "map_of (chats_activos (s\<lparr>objetos := objetos s @ [?g], chats_activos := chats_activos s @ [(cid, ?n)]\<rparr>))
            (chat_id (objetos (s\<lparr>objetos := objetos s @ [?g], chats_activos := chats_activos s @ [(cid, ?n)]\<rparr>) ! r))
          = Some r"
    proof (cases "r < ?n")
      case True
      with a have "activo (objetos s ! r)" by (simp add: nth_append)
      with reg True have "map_of (chats_activos s) (chat_id (objetos s ! r)) = Some r"
        by (simp add: registrados_def)
      with True show ?thesis by (simp add: nth_append map_add_def)
    next
      case False
      with r have "r = ?n" by simp
      with aus show ?thesis
        by (simp add: nth_append map_add_def chat_id_GestorChat_init)
    qed
  qed
qed

lemma monitor_borrar_invariante:
  assumes bf: "bien_formado s" and reg: "registrados s"
    and par: "\<And>cid r. cid \<in> set eliminar \<Longrightarrow> map_of (chats_activos s) cid = Some r \<Longrightarrow>
                \<not> activo (objetos s ! r)"
    and s': "objetos s' = objetos s" "chats_activos s' = monitor_borrar eliminar (chats_activos s)"
  shows "bien_formado s'" "registrados s'"
proof -
  from bf show "bien_formado s'"
    by (auto simp add: bien_formado_def s' monitor_borrar_filter distinct_map_filter list_all_iff)
  show "registrados s'"
    unfolding registrados_def s'
  proof (intro allI impI)
    fix r assume r: "r < length (objetos s)" and a: "activo (objetos s ! r)"
    with reg have m: "map_of (chats_activos s) (chat_id (objetos s ! r)) = Some r"
      by (simp add: registrados_def)
    with par [of "chat_id (objetos s ! r)" r] a have "chat_id (objetos s ! r) \<notin> set eliminar"
      by blast
    with m show "map_of (monitor_borrar eliminar (chats_activos s)) (chat_id (objetos s ! r)) = Some r"
      by (simp add: map_of_monitor_borrar)
  qed
qed

lemma monitor_bucle_detenidos:
  assumes bf: "bien_formado s"
    and run: "monitor_bucle ahora (chats_activos s) (objetos s, ficheros s, []) = (objs, fs, eliminar)"
    and reg: "map_of (chats_activos s) cid = Some r" and el: "cid \<in> set eliminar"
  shows "\<not> activo (objs ! r)"
proof -
  let ?P = "\<lambda>kv. inactivo ahora (objetos s ! snd kv)"
  from bf have dk: "distinct (map fst (chats_activos s))"
    by (simp add: bien_formado_def)
  note e = bien_formado_entrada [OF bf reg]
  from monitor_bucle_eliminar [OF run] el have "cid \<in> fst ` set (filter ?P (chats_activos s))"
    by simp
  with set_eliminar [OF dk reg, of ?P] have "inactivo ahora (objetos s ! r)"
    by simp
  with e(3) have "r \<in> snd ` set (filter ?P (chats_activos s))"
    by force
  with monitor_bucle_objetos [OF run] e(1) show ?thesis
    by simp
qed

lemma paso_Adquiere:
  assumes inv: "invariante c" and p: "paso env c (Adquiere i u) = Some c'"
  shows "invariante c'"
proof -
  from p obtain m where m: "message u = Some m"
    by (cases "message u") simp_all
  from p m have pre: "pc_principal c i = P_fuera" "lock_chats c = None"
    by (simp_all split: if_splits)
  with p m have c': "c' = c\<lparr>lock_chats := Some (Principal i),
      pc_principal := (pc_principal c)(i := P_comprobar (msg_chat_id m) u)\<rparr>"
    by simp
  note f = fuera_si_libre [OF inv pre(2)]
  show ?thesis
    using invarianteD(1,4) [OF inv] f
    by (intro invarianteI) (auto simp add: c' split: if_splits)
qed

lemma paso_Comprueba:
  assumes inv: "invariante c" and p: "paso env c (Comprueba i) = Some c'"
  shows "invariante c'"
proof -
  from p obtain cid u where pc: "pc_principal c i = P_comprobar cid u"
    by (cases "pc_principal c i") simp_all
  let ?p' = "if map_of (chats_activos (sistema c)) cid = None then P_crear cid u else P_encolar cid u"
  from p pc have c': "c' = c\<lparr>pc_principal := (pc_principal c)(i := ?p')\<rparr>"
    by simp
  from pc have ne: "pc_principal c i \<noteq> P_fuera" by simp
  show ?thesis
  proof (rule invariante_principal_dentro [OF inv ne, where p' = ?p'])
    fix cid' u' assume "?p' = P_crear cid' u'"
    then show "map_of (chats_activos (sistema c')) cid' = None"
      by (auto simp add: c' split: if_splits)
  qed (simp_all add: c' invarianteD(1,4) [OF inv])
qed

lemma paso_Crea:
  assumes inv: "invariante c" and p: "paso env c (Crea i ahora) = Some c'"
  shows "invariante c'"
proof -
  from p obtain cid u where pc: "pc_principal c i = P_crear cid u"
    by (cases "pc_principal c i") simp_all
  from p pc have c': "c' = c\<lparr>sistema := crear_gestor ahora cid (sistema c),
      pc_principal := (pc_principal c)(i := P_encolar cid u)\<rparr>"
    by simp
  from pc have ne: "pc_principal c i \<noteq> P_fuera" by simp
  note cg = crear_gestor_invariante [OF invarianteD(1,4) [OF inv] invarianteD(5) [OF inv pc], of ahora]
  show ?thesis
    by (rule invariante_principal_dentro [OF inv ne, where p' = "P_encolar cid u"])
      (simp_all add: c' cg)
qed

lemma paso_Encola:
  assumes inv: "invariante c" and p: "paso env c (Encola i ahora) = Some c'"
  shows "invariante c'"
proof -
  from p obtain cid u where pc: "pc_principal c i = P_encolar cid u"
    by (cases "pc_principal c i") simp_all
  from pc have ne: "pc_principal c i \<noteq> P_fuera" by simp
  note bf = invarianteD(1) [OF inv] and reg = invarianteD(4) [OF inv]
  show ?thesis
  proof (cases "map_of (chats_activos (sistema c)) cid")
    case None
    with p pc have c': "c' = c\<lparr>pc_principal := (pc_principal c)(i := P_soltar)\<rparr>"
      by (simp add: encolar_def)
    show ?thesis
      by (rule invariante_principal_dentro [OF inv ne, where p' = P_soltar])
        (simp_all add: c' bf reg)
  next
    case (Some r)
    let ?s' = "(sistema c)\<lparr>objetos := (objetos (sistema c))
        [r := agregar_mensaje (objetos (sistema c) ! r) u ahora]\<rparr>"
    from Some p pc have c': "c' = c\<lparr>sistema := ?s', pc_principal := (pc_principal c)(i := P_soltar)\<rparr>"
      by (simp add: encolar_def)
    from bien_formado_entrada(1) [OF bf Some] have r: "r < length (objetos (sistema c))" .
    have ao: "bien_formado ?s'" "registrados ?s'"
      by (rule actualizar_objeto [OF bf reg r]; simp add: agregar_mensaje_def)+
    show ?thesis
      by (rule invariante_principal_dentro [OF inv ne, where p' = P_soltar])
        (simp_all add: c' ao)
  qed
qed

lemma paso_Suelta:
  assumes inv: "invariante c" and p: "paso env c (Suelta i) = Some c'"
  shows "invariante c'"
proof -
  from p have pc: "pc_principal c i = P_soltar"
    by (cases "pc_principal c i") simp_all
  with p have c': "c' = c\<lparr>lock_chats := None, pc_principal := (pc_principal c)(i := P_fuera)\<rparr>"
    by simp
  from pc have ne: "pc_principal c i \<noteq> P_fuera" by simp
  show ?thesis
  proof (rule invariante_fuera [OF inv])
    fix j show "pc_principal c' j = P_fuera"
      using fuera_si_otro(1) [OF inv ne, of j] by (simp add: c')
  next
    show "pc_monitor c' = Mo_fuera"
      using fuera_si_otro(2) [OF inv ne] by (simp add: c')
  qed (simp add: c')
qed

lemma paso_Monitor_adquiere:
  assumes inv: "invariante c" and p: "paso env c (Monitor_adquiere ahora) = Some c'"
  shows "invariante c'"
proof -
  from p have pre: "pc_monitor c = Mo_fuera" "lock_chats c = None"
    by (simp_all split: if_splits)
  with p have c': "c' = c\<lparr>lock_chats := Some Monitor, pc_monitor := Mo_bucle ahora\<rparr>"
    by simp
  note f = fuera_si_libre(1) [OF inv pre(2)]
  show ?thesis
    using invarianteD(1,4) [OF inv] f
    by (intro invarianteI) (auto simp add: c')
qed

lemma paso_Monitor_escanea:
  assumes inv: "invariante c" and p: "paso env c Monitor_escanea = Some c'"
  shows "invariante c'"
proof -
  let ?s = "sistema c"
  from p obtain ahora where pc: "pc_monitor c = Mo_bucle ahora"
    by (cases "pc_monitor c") simp_all
  obtain objs fs eliminar where
    run: "monitor_bucle ahora (chats_activos ?s) (objetos ?s, ficheros ?s, []) = (objs, fs, eliminar)"
    by (cases "monitor_bucle ahora (chats_activos ?s) (objetos ?s, ficheros ?s, [])") blast
  from p pc run have c': "c' = c\<lparr>sistema := ?s\<lparr>objetos := objs, ficheros := fs\<rparr>,
      pc_monitor := Mo_borrar eliminar\<rparr>"
    by simp
  from pc have ne: "pc_monitor c \<noteq> Mo_fuera" by simp
  note bf = invarianteD(1) [OF inv] and reg = invarianteD(4) [OF inv]
  from monitor_bucle_objetos [OF run]
  have len: "length objs = length (objetos ?s)"
    and campos: "\<And>i. i < length (objetos ?s) \<Longrightarrow>
        chat_id (objs ! i) = chat_id (objetos ?s ! i) \<and> (activo (objs ! i) \<longrightarrow> activo (objetos ?s ! i))"
    by simp_all
  have so: "bien_formado (?s\<lparr>objetos := objs, ficheros := fs\<rparr>)"
    "registrados (?s\<lparr>objetos := objs, ficheros := fs\<rparr>)"
    by (rule sustituir_objetos [OF bf reg len campos]; simp)+
  show ?thesis
  proof (rule invariante_monitor_dentro [OF inv ne])
    fix eliminar' cid r
    assume "pc_monitor c' = Mo_borrar eliminar'" "cid \<in> set eliminar'"
      "map_of (chats_activos (sistema c')) cid = Some r"
    then have "cid \<in> set eliminar" "map_of (chats_activos ?s) cid = Some r"
      by (simp_all add: c')
    from monitor_bucle_detenidos [OF bf run this(2,1)]
    show "\<not> activo (objetos (sistema c') ! r)"
      by (simp add: c')
  qed (simp_all add: c' so)
qed

lemma paso_Monitor_borra:
  assumes inv: "invariante c" and p: "paso env c Monitor_borra = Some c'"
  shows "invariante c'"
proof -
  let ?s = "sistema c"
  from p obtain eliminar where pc: "pc_monitor c = Mo_borrar eliminar"
    by (cases "pc_monitor c") simp_all
  let ?s' = "?s\<lparr>chats_activos := monitor_borrar eliminar (chats_activos ?s)\<rparr>"
  from p pc have c': "c' = c\<lparr>sistema := ?s', pc_monitor := Mo_soltar\<rparr>"
    by simp
  from pc have ne: "pc_monitor c \<noteq> Mo_fuera" by simp
  note bf = invarianteD(1) [OF inv] and reg = invarianteD(4) [OF inv]
  have mb: "bien_formado ?s'" "registrados ?s'"
    by (rule monitor_borrar_invariante [OF bf reg invarianteD(6) [OF inv pc]]; simp)+
  show ?thesis
    by (rule invariante_monitor_dentro [OF inv ne]) (simp_all add: c' mb)
qed

lemma paso_Monitor_suelta:
  assumes inv: "invariante c" and p: "paso env c Monitor_suelta = Some c'"
  shows "invariante c'"
proof -
  from p have pc: "pc_monitor c = Mo_soltar"
    by (cases "pc_monitor c") simp_all
  with p have c': "c' = c\<lparr>lock_chats := None, pc_monitor := Mo_fuera\<rparr>"
    by simp
  from pc have ne: "pc_monitor c \<noteq> Mo_fuera" by simp
  show ?thesis
    by (rule invariante_fuera [OF inv]) (simp_all add: c' fuera_si_monitor [OF inv ne])
qed

lemma paso_Trabaja:
  assumes inv: "invariante c" and p: "paso env c (Trabaja r ahora) = Some c'"
  shows "invariante c'"
proof -
  let ?s = "sistema c"
  from p have r: "r < length (objetos ?s)"
    by (simp split: if_splits)
  obtain tr' g' where it: "procesar_cola_iteracion env ahora (traza c, objetos ?s ! r) = (tr', g')"
    by (cases "procesar_cola_iteracion env ahora (traza c, objetos ?s ! r)") blast
  let ?s' = "?s\<lparr>objetos := (objetos ?s)[r := g']\<rparr>"
  from p r it have c': "c' = c\<lparr>sistema := ?s', traza := tr'\<rparr>"
    by simp
  from procesar_cola_iteracion_inv [OF it]
  have campos: "chat_id g' = chat_id (objetos ?s ! r)" "activo g' = activo (objetos ?s ! r)"
    by simp_all
  note bf = invarianteD(1) [OF inv] and reg = invarianteD(4) [OF inv]
  have ao: "bien_formado ?s'" "registrados ?s'"
    by (rule actualizar_objeto [OF bf reg r]; simp add: campos)+
  show ?thesis
  proof (rule invarianteI)
    fix eliminar cid x
    assume "pc_monitor c' = Mo_borrar eliminar" "cid \<in> set eliminar"
      "map_of (chats_activos (sistema c')) cid = Some x"
    then have "\<not> activo (objetos ?s ! x)"
      using invarianteD(6) [OF inv, of eliminar cid x] by (simp add: c')
    with campos(2) r show "\<not> activo (objetos (sistema c') ! x)"
      by (cases "x = r") (simp_all add: c')
  qed (use invarianteD(2,3,5) [OF inv] in \<open>simp_all add: c' ao\<close>)
qed

lemma paso_invariante:
  assumes "invariante c" "paso env c ev = Some c'"
  shows "invariante c'"
  using assms
  by (cases ev)
    (blast intro: paso_Adquiere paso_Comprueba paso_Crea paso_Encola paso_Suelta
       paso_Monitor_adquiere paso_Monitor_escanea paso_Monitor_borra paso_Monitor_suelta
       paso_Trabaja)+

lemma correr_invariante:
  "invariante c \<Longrightarrow> correr env c evs = Some c' \<Longrightarrow> invariante c'"
proof (induction evs arbitrary: c)
  case Nil
  then show ?case by simp
next
  case (Cons ev evs)
  from Cons.prems(2) obtain c1 where p: "paso env c ev = Some c1" and r: "correr env c1 evs = Some c'"
    by (cases "paso env c ev") simp_all
  from Cons.IH [OF paso_invariante [OF Cons.prems(1) p] r] show ?case .
qed

text \<open>
  Claim C1. In every state that the threads reach from the start of the program, under
  any schedule: two active workers of the same chat are the same object; every active
  worker is the one the dictionary has for its chat; no identifier occurs twice in the
  dictionary; at most one thread is inside a \<open>with lock_chats\<close> block, and it holds the
  lock, so the test, construction and insertion of the main loop and the scan and
  removal of the monitor run without a step of another thread on the dictionary between
  them. Two concurrent first contacts of one chat therefore construct one worker.
\<close>

theorem un_gestor_por_chat:
  "correr env (inicial fs) evs = Some c \<longrightarrow>
     (\<forall>r r'. r < length (objetos (sistema c)) \<and> r' < length (objetos (sistema c))
         \<and> activo (objetos (sistema c) ! r) \<and> activo (objetos (sistema c) ! r')
         \<and> chat_id (objetos (sistema c) ! r) = chat_id (objetos (sistema c) ! r') \<longrightarrow> r = r')
     \<and> registrados (sistema c)
     \<and> distinct (map fst (chats_activos (sistema c)))
     \<and> (\<forall>i j. pc_principal c i \<noteq> P_fuera \<and> pc_principal c j \<noteq> P_fuera \<longrightarrow> i = j)
     \<and> (\<forall>i. pc_principal c i \<noteq> P_fuera \<longrightarrow>
           pc_monitor c = Mo_fuera \<and> lock_chats c = Some (Principal i))
     \<and> (pc_monitor c \<noteq> Mo_fuera \<longrightarrow> lock_chats c = Some Monitor)"
proof
  assume "correr env (inicial fs) evs = Some c"
  from correr_invariante [OF invariante_inicial this] have inv: "invariante c" .
  note reg = invarianteD(4) [OF inv]
  have uno: "\<forall>r r'. r < length (objetos (sistema c)) \<and> r' < length (objetos (sistema c))
         \<and> activo (objetos (sistema c) ! r) \<and> activo (objetos (sistema c) ! r')
         \<and> chat_id (objetos (sistema c) ! r) = chat_id (objetos (sistema c) ! r') \<longrightarrow> r = r'"
  proof (intro allI impI)
    fix r r'
    assume h: "r < length (objetos (sistema c)) \<and> r' < length (objetos (sistema c))
         \<and> activo (objetos (sistema c) ! r) \<and> activo (objetos (sistema c) ! r')
         \<and> chat_id (objetos (sistema c) ! r) = chat_id (objetos (sistema c) ! r')"
    from reg h have a: "map_of (chats_activos (sistema c)) (chat_id (objetos (sistema c) ! r)) = Some r"
      unfolding registrados_def by blast
    from reg h have b: "map_of (chats_activos (sistema c)) (chat_id (objetos (sistema c) ! r')) = Some r'"
      unfolding registrados_def by blast
    from h have "chat_id (objetos (sistema c) ! r) = chat_id (objetos (sistema c) ! r')"
      by simp
    with a b show "r = r'" by (metis option.inject)
  qed
  have excl: "\<forall>i j. pc_principal c i \<noteq> P_fuera \<and> pc_principal c j \<noteq> P_fuera \<longrightarrow> i = j"
    using fuera_si_otro(1) [OF inv] by blast
  have dentro: "\<forall>i. pc_principal c i \<noteq> P_fuera \<longrightarrow>
           pc_monitor c = Mo_fuera \<and> lock_chats c = Some (Principal i)"
    using fuera_si_otro(2) [OF inv] invarianteD(2) [OF inv] by blast
  from invarianteD(1) [OF inv] have dk: "distinct (map fst (chats_activos (sistema c)))"
    by (simp add: bien_formado_def)
  from uno reg dk excl dentro invarianteD(3) [OF inv]
  show "(\<forall>r r'. r < length (objetos (sistema c)) \<and> r' < length (objetos (sistema c))
         \<and> activo (objetos (sistema c) ! r) \<and> activo (objetos (sistema c) ! r')
         \<and> chat_id (objetos (sistema c) ! r) = chat_id (objetos (sistema c) ! r') \<longrightarrow> r = r')
     \<and> registrados (sistema c)
     \<and> distinct (map fst (chats_activos (sistema c)))
     \<and> (\<forall>i j. pc_principal c i \<noteq> P_fuera \<and> pc_principal c j \<noteq> P_fuera \<longrightarrow> i = j)
     \<and> (\<forall>i. pc_principal c i \<noteq> P_fuera \<longrightarrow>
           pc_monitor c = Mo_fuera \<and> lock_chats c = Some (Principal i))
     \<and> (pc_monitor c \<noteq> Mo_fuera \<longrightarrow> lock_chats c = Some Monitor)"
    by blast
qed

lemma correr_eventos_42:
  "correr entorno_hola (inicial Map.empty) eventos_42
     = Some \<lparr>sistema =
               \<lparr>objetos = [\<lparr>chat_id = 42, cola_mensajes = [update_hola, update_voz],
                            ultima_actividad = 12, memoria = [], activo = True\<rparr>],
                chats_activos = [(42, 0)], ficheros = Map.empty\<rparr>,
             traza = [], lock_chats = None, pc_principal = (\<lambda>i. P_fuera),
             pc_monitor = Mo_fuera\<rparr>"
  apply (simp add: eventos_42_def inicial_def update_hola_def update_voz_def crear_gestor_def
      encolar_def GestorChat_init_def cargar_historial_def agregar_mensaje_def)
  apply (rule ext)
  apply simp
  done

text \<open>
  Two threads bring a first update of chat 42 each: the second cannot enter the block
  while the first is inside, and after both one worker exists, with both updates queued.
\<close>

theorem un_gestor_por_chat_witness:
  "(\<exists>c. correr entorno_hola (inicial Map.empty) eventos_42 = Some c
        \<and> length (objetos (sistema c)) = 1 \<and> chats_activos (sistema c) = [(42, 0)]
        \<and> cola_mensajes (objetos (sistema c) ! 0) = [update_hola, update_voz]
        \<and> registrados (sistema c) \<and> lock_chats c = None)
   \<and> correr entorno_hola (inicial Map.empty) [Adquiere 0 update_hola, Adquiere 1 update_voz] = None"
proof -
  let ?c = "\<lparr>sistema =
               \<lparr>objetos = [\<lparr>chat_id = 42, cola_mensajes = [update_hola, update_voz],
                            ultima_actividad = 12, memoria = [], activo = True\<rparr>],
                chats_activos = [(42, 0)], ficheros = Map.empty\<rparr>,
             traza = [], lock_chats = None, pc_principal = (\<lambda>i. P_fuera),
             pc_monitor = Mo_fuera\<rparr>"
  from un_gestor_por_chat [where env = entorno_hola and fs = Map.empty and evs = eventos_42
      and c = ?c] correr_eventos_42
  have "registrados (sistema ?c)" by blast
  with correr_eventos_42
  have "\<exists>c. correr entorno_hola (inicial Map.empty) eventos_42 = Some c
        \<and> length (objetos (sistema c)) = 1 \<and> chats_activos (sistema c) = [(42, 0)]
        \<and> cola_mensajes (objetos (sistema c) ! 0) = [update_hola, update_voz]
        \<and> registrados (sistema c) \<and> lock_chats c = None"
    by simp
  moreover
  have "correr entorno_hola (inicial Map.empty) [Adquiere 0 update_hola, Adquiere 1 update_voz] = None"
    by (simp add: inicial_def update_hola_def update_voz_def)
  ultimately show ?thesis by blast
qed

section \<open>Saving and loading the history\<close>

lemma leer_lineas_sin_saltos:
  "10 \<notin> set l \<Longrightarrow> 13 \<notin> set l \<Longrightarrow> leer_lineas linea (l @ resto) = leer_lineas (linea @ l) resto"
  by (induction l arbitrary: linea) auto

lemma leer_lineas_str_join:
  "list_all linea_limpia ls \<Longrightarrow> ls \<noteq> [] \<Longrightarrow>
   leer_lineas [] (str_join [10] ls) = map (\<lambda>l. l @ [10]) (butlast ls) @ [last ls]"
proof (induction ls rule: induct_list012)
  case 1
  then show ?case by simp
next
  case (2 x)
  then have "10 \<notin> set x" "13 \<notin> set x" "x \<noteq> []"
    by (simp_all add: linea_limpia_def)
  with leer_lineas_sin_saltos [of x "[]" "[]"] show ?case by simp
next
  case (3 x y ys)
  then have x: "10 \<notin> set x" "13 \<notin> set x"
    and ih: "leer_lineas [] (str_join [10] (y # ys)) = map (\<lambda>l. l @ [10]) (butlast (y # ys)) @ [last (y # ys)]"
    by (simp_all add: linea_limpia_def)
  have "leer_lineas [] (str_join [10] (x # y # ys)) = leer_lineas x (10 # str_join [10] (y # ys))"
    using leer_lineas_sin_saltos [OF x, of "[]" "10 # str_join [10] (y # ys)"] by simp
  also have "\<dots> = (x @ [10]) # leer_lineas [] (str_join [10] (y # ys))"
    by simp
  finally show ?case using ih by simp
qed

lemma dropWhile_no_espacio: "l \<noteq> [] \<Longrightarrow> \<not> isspace (hd l) \<Longrightarrow> dropWhile isspace l = l"
  by (cases l) simp_all

lemma strip_linea_limpia:
  assumes "linea_limpia l"
  shows "strip l = l" "strip (l @ [10]) = l"
proof -
  from assms have ne: "l \<noteq> []" and h: "\<not> isspace (hd l)" and t: "\<not> isspace (last l)"
    by (simp_all add: linea_limpia_def)
  from ne t have r: "dropWhile isspace (rev l) = rev l"
    by (intro dropWhile_no_espacio) (simp_all add: hd_rev)
  from ne h have d: "dropWhile isspace l = l" "dropWhile isspace (l @ [10]) = l @ [10]"
    by (simp_all add: dropWhile_no_espacio)
  have sp: "isspace 10" by (simp add: isspace_def)
  from d r show "strip l = l" by (simp add: strip_def)
  from d r sp show "strip (l @ [10]) = l" by (simp add: strip_def)
qed

lemma map_strip_leer_lineas:
  assumes "list_all linea_limpia ls"
  shows "map strip (leer_lineas [] (str_join [10] ls)) = ls"
proof (cases "ls = []")
  case True
  then show ?thesis by simp
next
  case False
  from assms have b: "list_all linea_limpia (butlast ls)"
    by (auto simp add: list_all_iff dest: in_set_butlastD)
  from assms False have l: "linea_limpia (last ls)"
    by (simp add: list_all_iff)
  from b have "map (strip \<circ> (\<lambda>l. l @ [10])) (butlast ls) = butlast ls"
    by (induction "butlast ls" arbitrary: ls) (simp_all add: strip_linea_limpia map_idI list_all_iff)
  with l False show ?thesis
    by (simp add: leer_lineas_str_join [OF assms False] strip_linea_limpia)
qed

lemma foldl_deque_append_cabe:
  "length (d @ ls) \<le> maxlen \<Longrightarrow> foldl deque_append d ls = d @ ls"
proof (induction ls arbitrary: d)
  case Nil
  then show ?case by simp
next
  case (Cons l ls)
  then have "deque_append d l = d @ [l]"
    by (simp add: deque_append_def Let_def)
  with Cons.IH [of "d @ [l]"] Cons.prems show ?case by simp
qed

text \<open>
  What does hold of saving and loading: a history of at most 6 lines, each of them not
  empty, without line feed or carriage return and without white space at either end, is
  read back as it was written.
\<close>

lemma cargar_tras_guardar:
  assumes "length (memoria g) \<le> 6" "list_all linea_limpia (memoria g)"
  shows "memoria (GestorChat_init (guardar_historial fs g) (chat_id g) ahora) = memoria g"
  using assms
  by (simp add: GestorChat_init_def cargar_historial_def guardar_historial_def
      map_strip_leer_lineas foldl_deque_append_cabe maxlen_def)

text \<open>
  Claim C8 at two histories the program produces. A reply with a line feed in it is one
  line of the history; saved and loaded, it is two lines. The user line of an empty
  question ends with a space; saved and loaded, the space is gone. In both cases the
  history loaded by the constructor is not the history that \<open>detener\<close> saved.
\<close>

theorem cargar_tras_guardar_falla:
  "memoria (GestorChat_init (fst (detener Map.empty gestor_multilinea)) 42 400)
     = [lit ''Usuario: hola'', lit ''Asistente: uno'', lit ''dos'']
   \<and> memoria gestor_multilinea = [lit ''Usuario: hola'', lit ''Asistente: uno'' @ [10] @ lit ''dos'']
   \<and> memoria (GestorChat_init (fst (detener Map.empty gestor_sin_pregunta)) 42 400)
     = [lit ''Usuario:'', lit ''Asistente: '' @ [161] @ lit ''Hola!'']
   \<and> memoria gestor_sin_pregunta = [lit ''Usuario: '', lit ''Asistente: '' @ [161] @ lit ''Hola!'']"
  by (simp add: gestor_multilinea_def gestor_sin_pregunta_def gestor_42_eq detener_def
      guardar_historial_def GestorChat_init_def cargar_historial_def Let_def lit_def
      strip_def isspace_def deque_append_def maxlen_def)

end
